theory Spec2Isabelle
  imports Complex_Main
begin

section \<open>JavaScript values as the handlers use them\<close>

text \<open>
  The bot is JavaScript. An exception is a value of type \<open>error\<close> carrying the message
  that the handlers read back with \<open>error.message\<close>; a function that can throw returns
  \<open>error + 'a\<close>. The body of the create route is modelled untyped, as the body parsers
  deliver it, and its arithmetic on IEEE doubles; both follow below. The claim and escalate
  routes and the payment service read strings that are present or \<open>undefined\<close> (an
  \<open>option\<close>) and pass amounts through with no arithmetic beyond one sum; there an
  amount is a \<open>real\<close>.
\<close>

datatype error =
    Error string
  | TypeError string
  | NoFeeTierFound real  \<comment> \<open>\<open>Error(`No fee tier found for amount ${amount} MNEE`)\<close>\<close>

text \<open>Truthiness (\<open>!x\<close> is its negation) of a string that may be \<open>undefined\<close>: falsy when
  absent or empty.\<close>

definition truthy_str :: "string option \<Rightarrow> bool" where
  "truthy_str x = (case x of None \<Rightarrow> False | Some s \<Rightarrow> s \<noteq> [])"

text \<open>\<open>a || b\<close> on an optional number and a number: \<open>a\<close> when it is truthy, else \<open>b\<close>.\<close>

definition or_num :: "real option \<Rightarrow> real \<Rightarrow> real" where
  "or_num a b = (case a of None \<Rightarrow> b | Some n \<Rightarrow> if n \<noteq> 0 then n else b)"

text \<open>\<open>a || b\<close> on an optional string and a string.\<close>

definition or_str :: "string option \<Rightarrow> string \<Rightarrow> string" where
  "or_str a b = (case a of None \<Rightarrow> b | Some s \<Rightarrow> if s \<noteq> [] then s else b)"

subsection \<open>Numbers: IEEE 754 binary64\<close>

text \<open>
  A JavaScript number is \<open>NaN\<close>, an infinity, or a finite double. A finite double is
  written \<open>Finite m e\<close> for the value \<open>m * 2 ^ e\<close>, with \<open>m\<close> odd (or \<open>Finite 0 0\<close> for
  zero), so that each value has one form; the sign of zero is not kept, which no
  operation below can tell. The decimal 0.1, for one, is the double
  \<open>Finite 3602879701896397 (- 55)\<close>.
\<close>

datatype number = NaN | PosInf | NegInf | Finite int int

definition pow2 :: "int \<Rightarrow> real" where
  "pow2 k = (if 0 \<le> k then 2 ^ nat k else 1 / 2 ^ nat (- k))"

definition dyadic :: "int \<Rightarrow> int \<Rightarrow> real" where
  "dyadic m e = of_int m * pow2 e"

text \<open>The number of binary digits of a positive integer.\<close>

function bit_length :: "int \<Rightarrow> nat" where
  "bit_length n = (if n \<le> 0 then 0 else Suc (bit_length (n div 2)))"
  by pat_completeness auto
termination
  by (relation "measure nat") auto

text \<open>The form with an odd mantissa.\<close>

function strip :: "int \<Rightarrow> int \<Rightarrow> int \<times> int" where
  "strip m e = (if m = 0 then (0, 0) else if even m then strip (m div 2) (e + 1) else (m, e))"
  by pat_completeness auto
termination
  by (relation "measure (\<lambda>(m, e). nat \<bar>m\<bar>)") auto

declare bit_length.simps [simp del] strip.simps [simp del]

text \<open>\<open>m / 2 ^ k\<close> rounded to the nearest integer, a tie to the even one.\<close>

definition round_half_even :: "int \<Rightarrow> nat \<Rightarrow> int" where
  "round_half_even m k =
     (let q = m div 2 ^ k; r = m mod 2 ^ k; h = 2 ^ (k - 1)
      in if r > h \<or> (r = h \<and> odd q) then q + 1 else q)"

text \<open>
  The exact value \<open>m * 2 ^ e\<close> rounded to a double, to nearest and ties to even: the
  result keeps 53 binary digits, or fewer where its last place would fall below
  \<open>2 ^ - 1074\<close>, and is an infinity from \<open>2 ^ 1024\<close> on.
\<close>

definition round_dyadic :: "int \<Rightarrow> int \<Rightarrow> number" where
  "round_dyadic m e =
     (let u = max (e + int (bit_length \<bar>m\<bar>) - 53) (- 1074);
          n = (if u \<le> e then \<bar>m\<bar> else round_half_even \<bar>m\<bar> (nat (u - e)));
          e' = max u e
      in if int (bit_length n) + e' > 1024 then (if m < 0 then NegInf else PosInf)
         else (case strip n e' of (m', e'') \<Rightarrow> Finite (if m < 0 then - m' else m') e''))"

text \<open>A value of type \<open>number\<close> is a double when rounding leaves it as it is.\<close>

definition is_double :: "number \<Rightarrow> bool" where
  "is_double x = (case x of Finite m e \<Rightarrow> round_dyadic m e = Finite m e | _ \<Rightarrow> True)"

definition number_of_int :: "int \<Rightarrow> number" where
  "number_of_int i = round_dyadic i 0"

text \<open>The operator \<open>*\<close> on numbers: the exact product, rounded.\<close>

fun js_times :: "number \<Rightarrow> number \<Rightarrow> number" where
  "js_times NaN y = NaN"
| "js_times x NaN = NaN"
| "js_times (Finite m e) (Finite m' e') = round_dyadic (m * m') (e + e')"
| "js_times (Finite m e) PosInf = (if m = 0 then NaN else if m < 0 then NegInf else PosInf)"
| "js_times (Finite m e) NegInf = (if m = 0 then NaN else if m < 0 then PosInf else NegInf)"
| "js_times PosInf (Finite m e) = (if m = 0 then NaN else if m < 0 then NegInf else PosInf)"
| "js_times NegInf (Finite m e) = (if m = 0 then NaN else if m < 0 then PosInf else NegInf)"
| "js_times PosInf PosInf = PosInf"
| "js_times PosInf NegInf = NegInf"
| "js_times NegInf PosInf = NegInf"
| "js_times NegInf NegInf = PosInf"

text \<open>The comparisons \<open><=\<close> and \<open><\<close> on numbers; both are false when a side is \<open>NaN\<close>.\<close>

fun js_le :: "number \<Rightarrow> number \<Rightarrow> bool" where
  "js_le NaN y = False"
| "js_le x NaN = False"
| "js_le NegInf y = True"
| "js_le x PosInf = True"
| "js_le PosInf y = False"
| "js_le x NegInf = False"
| "js_le (Finite m e) (Finite m' e') = (dyadic m e \<le> dyadic m' e')"


subsection \<open>Values of a parsed body\<close>

text \<open>
  \<open>bodyParser.json\<close> and \<open>bodyParser.urlencoded\<close> deliver any JSON value, and the handler
  checks no type. A field that is absent reads as \<open>undefined\<close>.
\<close>

datatype jsval =
    Undefined
  | Null
  | Boolean bool
  | Number number
  | String string
  | Array "jsval list"
  | Object "(string \<times> jsval) list"

text \<open>Truthiness: \<open>undefined\<close>, \<open>null\<close>, \<open>false\<close>, zero, \<open>NaN\<close> and the empty string are
  falsy, every other value is truthy (the string \<open>"0"\<close> too).\<close>

fun truthy :: "jsval \<Rightarrow> bool" where
  "truthy Undefined = False"
| "truthy Null = False"
| "truthy (Boolean b) = b"
| "truthy (Number NaN) = False"
| "truthy (Number (Finite m e)) = (m \<noteq> 0)"
| "truthy (Number x) = True"
| "truthy (String s) = (s \<noteq> [])"
| "truthy (Array xs) = True"
| "truthy (Object kvs) = True"

definition js_or :: "jsval \<Rightarrow> jsval \<Rightarrow> jsval" where
  "js_or a b = (if truthy a then a else b)"

text \<open>
  \<open>ToNumber\<close>, the conversion that \<open>*\<close> and the comparisons apply to an operand. What it
  makes of a string (\<open>StringToNumber\<close>) and of an array or object (through
  \<open>ToPrimitive\<close>) is the language's; the two are parameters here, any functions at all.
\<close>

record conversions =
  StringToNumber :: "string \<Rightarrow> number"
  ObjectToNumber :: "jsval \<Rightarrow> number"

fun ToNumber :: "conversions \<Rightarrow> jsval \<Rightarrow> number" where
  "ToNumber js Undefined = NaN"
| "ToNumber js Null = Finite 0 0"
| "ToNumber js (Boolean b) = (if b then Finite 1 0 else Finite 0 0)"
| "ToNumber js (Number x) = x"
| "ToNumber js (String s) = StringToNumber js s"
| "ToNumber js v = ObjectToNumber js v"

subsection \<open>\<open>parseInt\<close> without a radix\<close>

text \<open>
  \<open>parseInt(s)\<close> skips leading white space, reads an optional sign, takes radix 16 after a
  \<open>0x\<close> or \<open>0X\<close> prefix and radix 10 otherwise, and reads the longest prefix of digits of
  that radix. With no digit the result is \<open>NaN\<close>, here \<open>None\<close>.
\<close>

definition is_white :: "char \<Rightarrow> bool" where
  "is_white c = (let n = (of_char c :: nat) in (9 \<le> n \<and> n \<le> 13) \<or> n = 32 \<or> n = 160)"

definition digit_val :: "char \<Rightarrow> nat option" where
  "digit_val c =
     (let n = (of_char c :: nat) in
      if 48 \<le> n \<and> n \<le> 57 then Some (n - 48)
      else if 97 \<le> n \<and> n \<le> 122 then Some (n - 87)
      else if 65 \<le> n \<and> n \<le> 90 then Some (n - 55)
      else None)"

definition is_digit :: "nat \<Rightarrow> char \<Rightarrow> bool" where
  "is_digit radix c = (case digit_val c of None \<Rightarrow> False | Some d \<Rightarrow> d < radix)"

fun digits_value :: "nat \<Rightarrow> nat \<Rightarrow> string \<Rightarrow> nat" where
  "digits_value radix acc [] = acc"
| "digits_value radix acc (c # cs) =
     digits_value radix (acc * radix + (case digit_val c of None \<Rightarrow> 0 | Some d \<Rightarrow> d)) cs"

definition parse_digits :: "nat \<Rightarrow> string \<Rightarrow> nat option" where
  "parse_digits radix s =
     (let ds = takeWhile (is_digit radix) s
      in if ds = [] then None else Some (digits_value radix 0 ds))"

definition strip_prefix_0x :: "string \<Rightarrow> (nat \<times> string)" where
  "strip_prefix_0x s =
     (case s of
        c0 # c1 # rest \<Rightarrow>
          if c0 = CHR ''0'' \<and> (c1 = CHR ''x'' \<or> c1 = CHR ''X'') then (16, rest) else (10, s)
      | _ \<Rightarrow> (10, s))"

definition parseInt :: "string \<Rightarrow> int option" where
  "parseInt str =
     (let s = dropWhile is_white str;
          (sign, s1) = (case s of
                          c # cs \<Rightarrow> if c = CHR ''-'' then (-1, cs)
                                    else if c = CHR ''+'' then (1, cs) else (1, s)
                        | [] \<Rightarrow> (1::int, s));
          (radix, s2) = strip_prefix_0x s1
      in case parse_digits radix s2 of
           None \<Rightarrow> None
         | Some n \<Rightarrow> Some (sign * int n))"

section \<open>The bounty routes (routes/bounty.js)\<close>

subsection \<open>Data\<close>

text \<open>
  A bounty as the ledger holds it: one field for each column of the \<open>bounties\<close> table that
  \<open>initDb\<close> creates, with \<open>option\<close> for a column that may be \<open>NULL\<close>. The model class
  (models/Bounty.js) is not among the sources; the routes read \<open>status\<close> and write
  \<open>pullRequestUrl\<close>.
\<close>

record bounty =
  bounty_id :: int
  repository :: string
  issue_id :: int
  issue_url :: string
  initial_amount :: real
  current_amount :: real
  max_amount :: real
  status :: "string option"
  solver :: "string option"
  claimed_amount :: "real option"
  transaction_hash :: string
  claim_transaction_hash :: "string option"
  block_number :: int
  pull_request_url :: "string option"
  escalation_count :: int
  last_escalation :: "nat option"

text \<open>The body of \<open>POST /\<close>, field by field as the handler destructures it.\<close>

record create_body =
  body_repository :: jsval
  body_issueId :: jsval
  body_issueUrl :: jsval
  body_amount :: jsval
  body_maxAmount :: jsval
  body_metadata :: jsval

text \<open>The object handed to \<open>bountyService.createBounty\<close>.\<close>

record create_args =
  arg_repository :: jsval
  arg_issueId :: jsval
  arg_amount :: jsval
  arg_maxAmount :: jsval
  arg_issueUrl :: jsval
  arg_metadata :: jsval

record create_result =
  created_bountyId :: int
  created_transactionHash :: string

text \<open>The body of \<open>POST /:bountyId/claim\<close>.\<close>

record claim_body =
  body_solver :: "string option"
  body_pullRequestUrl :: "string option"
  body_paymentTxId :: "string option"

record claim_result =
  claim_amount :: real
  claim_transactionHash :: string

text \<open>What \<open>escalateBounty\<close> resolves to: \<open>{success: true, oldAmount, newAmount,
  transactionHash}\<close> or \<open>{success: false, reason}\<close>.\<close>

datatype escalate_result =
    Escalated real real string
  | NotEscalated string

text \<open>
  The services the routes call are not among the sources (services/bountyService.js,
  models/Bounty.js). They are parameters of the model: each is any function from its
  arguments to a result or a thrown error.
\<close>

record services =
  createBounty :: "create_args \<Rightarrow> error + create_result"
  claimBounty :: "int option \<Rightarrow> string \<Rightarrow> string option \<Rightarrow> error + claim_result"
  escalateBounty :: "int option \<Rightarrow> error + escalate_result"
  findOne :: "int option \<Rightarrow> error + bounty option"
  save :: "bounty \<Rightarrow> error + unit"

text \<open>The calls a handler makes, in order.\<close>

datatype service_call =
    CreateBounty create_args
  | FindOne "int option"
  | ClaimBounty "int option" string "string option"
  | EscalateBounty "int option"
  | Save bounty

datatype json_body =
    ErrorBody string  \<comment> \<open>\<open>{error}\<close>\<close>
  | FailureBody string string  \<comment> \<open>\<open>{error, message}\<close>\<close>
  | CreatedBody int string  \<comment> \<open>\<open>{success: true, bountyId, transactionHash}\<close>\<close>
  | ClaimedBody real string string  \<comment> \<open>\<open>{success: true, amount, transactionHash, solver}\<close>\<close>
  | EscalatedBody real real string
      \<comment> \<open>\<open>{success: true, oldAmount, newAmount, transactionHash}\<close>\<close>
  | NotEscalatedBody string  \<comment> \<open>\<open>{success: false, reason}\<close>\<close>

record response =
  status_code :: nat
  json :: json_body

definition respond :: "nat \<Rightarrow> json_body \<Rightarrow> response" where
  "respond code b = \<lparr>status_code = code, json = b\<rparr>"

text \<open>\<open>error.message\<close>. The message of the fee error ends with the amount as JavaScript
  prints it; the model keeps the fixed part.\<close>

definition message :: "error \<Rightarrow> string" where
  "message e = (case e of Error m \<Rightarrow> m | TypeError m \<Rightarrow> m
                | NoFeeTierFound a \<Rightarrow> ''No fee tier found for amount'')"

subsection \<open>\<open>router.post('/')\<close>: create a bounty\<close>

definition post_create ::
  "conversions \<Rightarrow> services \<Rightarrow> create_body \<Rightarrow> service_call list \<times> response" where
  "post_create js svc body =
     (if \<not> truthy (body_repository body) \<or> \<not> truthy (body_issueId body)
         \<or> \<not> truthy (body_issueUrl body) \<or> \<not> truthy (body_amount body)
      then ([], respond 400
              (ErrorBody ''Missing required fields: repository, issueId, issueUrl, amount''))
      else
        (let args = \<lparr>arg_repository = body_repository body,
                     arg_issueId = body_issueId body,
                     arg_amount = body_amount body,
                     arg_maxAmount =
                       js_or (body_maxAmount body)
                         (Number (js_times (ToNumber js (body_amount body)) (Finite 3 0))),
                     arg_issueUrl = body_issueUrl body,
                     arg_metadata = body_metadata body\<rparr>
         in (case createBounty svc args of
               Inl e \<Rightarrow> ([CreateBounty args],
                         respond 500 (FailureBody ''Failed to create bounty'' (message e)))
             | Inr result \<Rightarrow> ([CreateBounty args],
                         respond 201 (CreatedBody (created_bountyId result)
                                                  (created_transactionHash result))))))"

subsection \<open>\<open>router.post('/:bountyId/claim')\<close>: claim a bounty\<close>

definition post_claim ::
  "services \<Rightarrow> string \<Rightarrow> claim_body \<Rightarrow> service_call list \<times> response" where
  "post_claim svc bountyId body =
     (if \<not> truthy_str (body_solver body) \<or> \<not> truthy_str (body_pullRequestUrl body)
      then ([], respond 400 (ErrorBody ''Missing required fields: solver, pullRequestUrl''))
      else
        (let failed = (\<lambda>e. respond 500 (FailureBody ''Failed to claim bounty'' (message e)));
             slv = the (body_solver body);
             c0 = [FindOne (parseInt bountyId)];
             c1 = c0 @ [ClaimBounty (parseInt bountyId) slv (body_paymentTxId body)]
         in (case findOne svc (parseInt bountyId) of
               Inl e \<Rightarrow> (c0, failed e)
             | Inr None \<Rightarrow> (c0, respond 404 (ErrorBody ''Bounty not found''))
             | Inr (Some b) \<Rightarrow>
                 (if status b \<noteq> Some ''active''
                  then (c0, respond 400 (ErrorBody ''Bounty is not active''))
                  else
                    (case claimBounty svc (parseInt bountyId) slv (body_paymentTxId body) of
                       Inl e \<Rightarrow> (c1, failed e)
                     | Inr result \<Rightarrow>
                         (case save svc (b\<lparr>pull_request_url := body_pullRequestUrl body\<rparr>) of
                            Inl e \<Rightarrow>
                              (c1 @ [Save (b\<lparr>pull_request_url := body_pullRequestUrl body\<rparr>)],
                               failed e)
                          | Inr u \<Rightarrow>
                              (c1 @ [Save (b\<lparr>pull_request_url := body_pullRequestUrl body\<rparr>)],
                               respond 200 (ClaimedBody (claim_amount result)
                                              (claim_transactionHash result) slv))))))))"

subsection \<open>\<open>router.post('/:bountyId/escalate')\<close>: escalate a bounty\<close>

definition post_escalate :: "services \<Rightarrow> string \<Rightarrow> service_call list \<times> response" where
  "post_escalate svc bountyId =
     (let failed = (\<lambda>e. respond 500 (FailureBody ''Failed to escalate bounty'' (message e)));
          c0 = [FindOne (parseInt bountyId)];
          c1 = c0 @ [EscalateBounty (parseInt bountyId)]
      in (case findOne svc (parseInt bountyId) of
            Inl e \<Rightarrow> (c0, failed e)
          | Inr None \<Rightarrow> (c0, respond 404 (ErrorBody ''Bounty not found''))
          | Inr (Some b) \<Rightarrow>
              (if status b \<noteq> Some ''active''
               then (c0, respond 400 (ErrorBody ''Bounty is not active''))
               else
                 (case escalateBounty svc (parseInt bountyId) of
                    Inl e \<Rightarrow> (c1, failed e)
                  | Inr (Escalated old new tx) \<Rightarrow> (c1, respond 200 (EscalatedBody old new tx))
                  | Inr (NotEscalated reason) \<Rightarrow>
                      (c1, respond 200 (NotEscalatedBody reason))))))"


section \<open>The ledger schema (db.js)\<close>

text \<open>
  \<open>initDb\<close> sends one SQL script: a \<open>CREATE TABLE IF NOT EXISTS\<close> and four
  \<open>CREATE INDEX IF NOT EXISTS\<close>. The script is transcribed as data, column by column, and
  given the meaning PostgreSQL gives it: a statement that would leave the table in a state
  violating a constraint is refused and changes nothing.
\<close>

datatype sql_type = SERIAL | INTEGER | VARCHAR nat | TEXT | NUMERIC | TIMESTAMP | JSONB

datatype sql_value = NULL | IntV int | NumV real | StrV string | TimeV nat | JsonV string

datatype sql_default = DefaultStr string | DefaultInt int | CURRENT_TIMESTAMP

datatype column_constraint = PRIMARY_KEY | UNIQUE | NOT_NULL | DEFAULT sql_default

datatype column = Column (col_name: string) (col_type: sql_type)
  (col_constraints: "column_constraint list")

text \<open>\<open>CREATE INDEX name ON bounties(columns)\<close>; the flag is \<open>True\<close> for
  \<open>CREATE UNIQUE INDEX\<close>, which the script never uses.\<close>

datatype index = Index (index_name: string) (index_columns: "string list") (index_unique: bool)

type_synonym row = "string \<Rightarrow> sql_value"

record table =
  tbl_columns :: "column list"
  tbl_indexes :: "index list"
  tbl_rows :: "row list"
  tbl_seq :: int  \<comment> \<open>the sequence behind the \<open>SERIAL\<close> column\<close>

definition bounties_columns :: "column list" where
  "bounties_columns =
     [Column ''id'' SERIAL [PRIMARY_KEY],
      Column ''bounty_id'' INTEGER [UNIQUE, NOT_NULL],
      Column ''repository'' (VARCHAR 255) [NOT_NULL],
      Column ''issue_id'' INTEGER [NOT_NULL],
      Column ''issue_url'' TEXT [NOT_NULL],
      Column ''initial_amount'' NUMERIC [NOT_NULL],
      Column ''current_amount'' NUMERIC [NOT_NULL],
      Column ''max_amount'' NUMERIC [NOT_NULL],
      Column ''status'' (VARCHAR 50) [DEFAULT (DefaultStr ''active'')],
      Column ''solver'' (VARCHAR 255) [],
      Column ''claimed_amount'' NUMERIC [],
      Column ''transaction_hash'' (VARCHAR 255) [NOT_NULL],
      Column ''claim_transaction_hash'' (VARCHAR 255) [],
      Column ''block_number'' INTEGER [NOT_NULL],
      Column ''pull_request_url'' TEXT [],
      Column ''escalation_count'' INTEGER [DEFAULT (DefaultInt 0)],
      Column ''last_escalation'' TIMESTAMP [],
      Column ''metadata'' JSONB [],
      Column ''claimed_at'' TIMESTAMP [],
      Column ''created_at'' TIMESTAMP [DEFAULT CURRENT_TIMESTAMP],
      Column ''updated_at'' TIMESTAMP [DEFAULT CURRENT_TIMESTAMP]]"

definition bounties_indexes :: "index list" where
  "bounties_indexes =
     [Index ''idx_bounties_repository_status_created_at''
        [''repository'', ''status'', ''created_at''] False,
      Index ''idx_bounties_status_last_escalation'' [''status'', ''last_escalation''] False,
      Index ''idx_bounties_repository'' [''repository''] False,
      Index ''idx_bounties_bounty_id'' [''bounty_id''] False]"

text \<open>
  \<open>IF NOT EXISTS\<close>: a table that is already there is left as it is, and an index is
  added only when no index has its name. A failure to connect is thrown to the caller.
\<close>

definition create_index_if_not_exists :: "index \<Rightarrow> table \<Rightarrow> table" where
  "create_index_if_not_exists i t =
     (if index_name i \<in> set (map index_name (tbl_indexes t)) then t
      else t\<lparr>tbl_indexes := tbl_indexes t @ [i]\<rparr>)"

definition create_table_if_not_exists :: "column list \<Rightarrow> table option \<Rightarrow> table" where
  "create_table_if_not_exists cols db =
     (case db of
        Some t \<Rightarrow> t
      | None \<Rightarrow> \<lparr>tbl_columns = cols, tbl_indexes = [], tbl_rows = [], tbl_seq = 1\<rparr>)"

definition initDb :: "error + unit \<Rightarrow> table option \<Rightarrow> (error + unit) \<times> table option" where
  "initDb connect db =
     (case connect of
        Inl e \<Rightarrow> (Inl e, db)
      | Inr u \<Rightarrow>
          (Inr (), Some (fold create_index_if_not_exists bounties_indexes
                           (create_table_if_not_exists bounties_columns db))))"

subsection \<open>What the constraints mean\<close>

definition is_not_null :: "column \<Rightarrow> bool" where
  "is_not_null c = (NOT_NULL \<in> set (col_constraints c) \<or> PRIMARY_KEY \<in> set (col_constraints c)
                    \<or> col_type c = SERIAL)"

definition is_unique :: "column \<Rightarrow> bool" where
  "is_unique c = (UNIQUE \<in> set (col_constraints c) \<or> PRIMARY_KEY \<in> set (col_constraints c))"

definition fits :: "sql_type \<Rightarrow> sql_value \<Rightarrow> bool" where
  "fits ty v =
     (case v of
        NULL \<Rightarrow> True
      | IntV i \<Rightarrow> ty = SERIAL \<or> ty = INTEGER \<or> ty = NUMERIC
      | NumV x \<Rightarrow> ty = NUMERIC
      | StrV s \<Rightarrow> (case ty of VARCHAR n \<Rightarrow> length s \<le> n | TEXT \<Rightarrow> True | _ \<Rightarrow> False)
      | TimeV t \<Rightarrow> ty = TIMESTAMP
      | JsonV j \<Rightarrow> ty = JSONB)"

text \<open>The column lists that must be unique: each \<open>UNIQUE\<close> or \<open>PRIMARY KEY\<close> column, and the
  columns of each unique index.\<close>

definition unique_keys :: "table \<Rightarrow> string list list" where
  "unique_keys t =
     map (\<lambda>c. [col_name c]) (filter is_unique (tbl_columns t))
     @ map index_columns (filter index_unique (tbl_indexes t))"

text \<open>Two rows collide on a key when they agree on all its columns and none is \<open>NULL\<close>.\<close>

definition collide :: "string list \<Rightarrow> row \<Rightarrow> row \<Rightarrow> bool" where
  "collide key r r' = list_all (\<lambda>k. r k \<noteq> NULL \<and> r k = r' k) key"

fun key_distinct :: "string list \<Rightarrow> row list \<Rightarrow> bool" where
  "key_distinct key [] = True"
| "key_distinct key (r # rs) = (list_all (\<lambda>r'. \<not> collide key r r') rs \<and> key_distinct key rs)"

definition row_ok :: "column list \<Rightarrow> row \<Rightarrow> bool" where
  "row_ok cols r =
     list_all (\<lambda>c. (is_not_null c \<longrightarrow> r (col_name c) \<noteq> NULL)
                   \<and> fits (col_type c) (r (col_name c))) cols"

definition constraints_hold :: "table \<Rightarrow> row list \<Rightarrow> bool" where
  "constraints_hold t rs =
     (list_all (row_ok (tbl_columns t)) rs \<and> list_all (\<lambda>key. key_distinct key rs) (unique_keys t))"

subsection \<open>Statements\<close>

definition default_value :: "nat \<Rightarrow> int \<Rightarrow> column \<Rightarrow> sql_value" where
  "default_value now seq c =
     (if col_type c = SERIAL then IntV seq
      else case [d. DEFAULT d \<leftarrow> col_constraints c] of
             [] \<Rightarrow> NULL
           | DefaultStr s # ds \<Rightarrow> StrV s
           | DefaultInt i # ds \<Rightarrow> IntV i
           | CURRENT_TIMESTAMP # ds \<Rightarrow> TimeV now)"

text \<open>The row an \<open>INSERT\<close> builds: the given value of a column, else its default.\<close>

definition make_row :: "column list \<Rightarrow> nat \<Rightarrow> int \<Rightarrow> (string \<times> sql_value) list \<Rightarrow> row" where
  "make_row cols now seq vals =
     (\<lambda>name. case map_of vals name of
               Some v \<Rightarrow> v
             | None \<Rightarrow> (case find (\<lambda>c. col_name c = name) cols of
                          Some c \<Rightarrow> default_value now seq c
                        | None \<Rightarrow> NULL))"

definition set_columns :: "(string \<times> sql_value) list \<Rightarrow> row \<Rightarrow> row" where
  "set_columns vals r = (\<lambda>name. case map_of vals name of Some v \<Rightarrow> v | None \<Rightarrow> r name)"

definition known_columns :: "table \<Rightarrow> (string \<times> sql_value) list \<Rightarrow> bool" where
  "known_columns t vals = list_all (\<lambda>(k, v). k \<in> set (map col_name (tbl_columns t))) vals"

datatype statement =
    Insert "(string \<times> sql_value) list"
  | Update "row \<Rightarrow> bool" "(string \<times> sql_value) list"
  | Delete "row \<Rightarrow> bool"

definition commit :: "table \<Rightarrow> row list \<Rightarrow> (error + unit) \<times> table" where
  "commit t rs =
     (if constraints_hold t rs then (Inr (), t\<lparr>tbl_rows := rs\<rparr>)
      else (Inl (Error ''constraint violation''), t))"

text \<open>
  An \<open>INSERT\<close> that leaves out the \<open>SERIAL\<close> column draws its value from the sequence, which
  stays advanced when the statement is refused.
\<close>

fun execute :: "nat \<Rightarrow> statement \<Rightarrow> table \<Rightarrow> (error + unit) \<times> table" where
  "execute now (Insert vals) t =
     (if \<not> known_columns t vals then (Inl (Error ''unknown column''), t)
      else
        (let t1 = (if list_ex (\<lambda>c. col_type c = SERIAL \<and> map_of vals (col_name c) = None)
                        (tbl_columns t)
                   then t\<lparr>tbl_seq := tbl_seq t + 1\<rparr> else t)
         in commit t1 (tbl_rows t @ [make_row (tbl_columns t) now (tbl_seq t) vals])))"
| "execute now (Update cond vals) t =
     (if \<not> known_columns t vals then (Inl (Error ''unknown column''), t)
      else commit t (map (\<lambda>r. if cond r then set_columns vals r else r) (tbl_rows t)))"
| "execute now (Delete cond) t = commit t (filter (\<lambda>r. \<not> cond r) (tbl_rows t))"

fun execute_all :: "(nat \<times> statement) list \<Rightarrow> table \<Rightarrow> table" where
  "execute_all [] t = t"
| "execute_all ((now, st) # sts) t = execute_all sts (snd (execute now st t))"

text \<open>The ledger right after \<open>initDb\<close> on a database that has no \<open>bounties\<close> table yet.\<close>

definition fresh_ledger :: table where
  "fresh_ledger = the (snd (initDb (Inr ()) None))"

definition is_active :: "row \<Rightarrow> bool" where
  "is_active r = (r ''status'' = StrV ''active'')"


section \<open>The escalation scheduler (index.js)\<close>

text \<open>
  \<open>process.env\<close> maps a name to a string, or to nothing when the variable is unset. A
  five-field cron expression is a list of fields, each \<open>*\<close> or a number; the expression
  \<open>'0 * * * *'\<close> is \<open>[At 0, Star, Star, Star, Star]\<close>.
\<close>

type_synonym environment = "string \<Rightarrow> string option"

datatype cron_field = Star | At nat

record clock =
  minute :: nat
  hour :: nat
  day_of_month :: nat
  month :: nat
  day_of_week :: nat

record cron_job =
  cron_expression :: "cron_field list"
  cron_task :: string

definition field_matches :: "cron_field \<Rightarrow> nat \<Rightarrow> bool" where
  "field_matches f n = (case f of Star \<Rightarrow> True | At k \<Rightarrow> n = k)"

text \<open>A job fires at the start of each minute whose clock matches all five fields.\<close>

definition fires :: "cron_job \<Rightarrow> clock \<Rightarrow> bool" where
  "fires job t =
     list_all2 field_matches (cron_expression job)
       [minute t, hour t, day_of_month t, month t, day_of_week t]"

text \<open>\<open>startEscalationScheduler\<close> returns the jobs it registers with \<open>cron.schedule\<close>. The
  constant \<open>interval\<close> is a string from the environment or the number 3600000.\<close>

definition startEscalationScheduler :: "environment \<Rightarrow> cron_job list" where
  "startEscalationScheduler env =
     (let interval = (if truthy_str (env ''ESCALATION_CHECK_INTERVAL'')
                      then Inl (the (env ''ESCALATION_CHECK_INTERVAL''))
                      else Inr (3600000 :: real))
      in [\<lparr>cron_expression = [At 0, Star, Star, Star, Star],
            cron_task = ''escalationService.checkAndEscalateBounties''\<rparr>])"

section \<open>The lifecycle engine's escalation\<close>

text \<open>
  Modelled from the spec: \<open>bountyService.escalateBounty\<close>, whose file
  (services/bountyService.js) is not among the sources. Section 4.1 of the specification
  gives its preconditions (the bounty exists, its status is \<open>active\<close>, its current amount is
  below its maximum amount, no claim is in flight) and its effect (one on-chain escalation
  call, then the ledger row gets the new amount, one more escalation and the time). A
  bounty whose current amount has reached the maximum gets \<open>max_amount_reached\<close>; section 8
  says "always", so that check comes first after the lookup. A claim in flight gives
  \<open>claim_in_progress\<close> (section 5). The specification names no reason for a missing or an
  inactive bounty; the model calls them \<open>not_found\<close> and \<open>not_active\<close>. The step policy
  and the escrow client are parameters; the new amount is capped at the maximum.
\<close>

datatype escrow_call = EscrowEscalate int real

record engine =
  ledger :: "bounty list"
  claims_in_flight :: "int list"

definition spec_escalateBounty ::
  "(real \<Rightarrow> real) \<Rightarrow> (int \<Rightarrow> real \<Rightarrow> error + string) \<Rightarrow> nat \<Rightarrow> engine \<Rightarrow> int
     \<Rightarrow> escrow_call list \<times> (error + escalate_result) \<times> engine" where
  "spec_escalateBounty policy escrow_escalate now eng bountyId =
     (case find (\<lambda>b. bounty_id b = bountyId) (ledger eng) of
        None \<Rightarrow> ([], Inr (NotEscalated ''not_found''), eng)
      | Some b \<Rightarrow>
          (if \<not> current_amount b < max_amount b
           then ([], Inr (NotEscalated ''max_amount_reached''), eng)
           else if status b \<noteq> Some ''active''
           then ([], Inr (NotEscalated ''not_active''), eng)
           else if bountyId \<in> set (claims_in_flight eng)
           then ([], Inr (NotEscalated ''claim_in_progress''), eng)
           else
             (let newAmount = min (policy (current_amount b)) (max_amount b)
              in (case escrow_escalate bountyId newAmount of
                    Inl e \<Rightarrow> ([EscrowEscalate bountyId newAmount], Inl e, eng)
                  | Inr tx \<Rightarrow>
                      ([EscrowEscalate bountyId newAmount],
                       Inr (Escalated (current_amount b) newAmount tx),
                       eng\<lparr>ledger :=
                             map (\<lambda>r. if bounty_id r = bountyId
                                       then r\<lparr>current_amount := newAmount,
                                              escalation_count := escalation_count r + 1,
                                              last_escalation := Some now\<rparr>
                                       else r) (ledger eng)\<rparr>)))))"


section \<open>The lifecycle engine's creation\<close>



section \<open>The payment service (services/mnee.js)\<close>

subsection \<open>The SDK, as the service sees it\<close>

text \<open>
  The package \<open>@mnee/ts-sdk\<close> is not part of the repository. A client is a record of what
  its methods answer: any result or thrown error for the calls that reach the payment
  rail, any function for the two pure conversions. The class is the function from the
  constructor's argument to the client it builds, or to the error it throws. The dynamic
  \<open>import\<close> fails, or gives a module whose default export is the class or is missing.
\<close>

record sdk_options =
  opt_environment :: string
  opt_apiKey :: string

record fee_tier =
  tier_min :: real
  tier_max :: real
  tier_fee :: real

record mnee_config =
  decimals :: nat
  tokenId :: string
  feeAddress :: string
  fees :: "fee_tier list"

record balance_info =
  info_balance :: real
  info_pending :: "real option"

record mnee_client =
  config :: "error + mnee_config option"
  transfer :: "(string \<times> real) list \<Rightarrow> string \<Rightarrow> error + string"
  balance :: "string \<Rightarrow> error + balance_info"
  faucet :: "string \<Rightarrow> error + string"
  toAtomicAmount :: "real \<Rightarrow> real"
  fromAtomicAmount :: "real \<Rightarrow> real"

type_synonym mnee_class = "sdk_options \<Rightarrow> error + mnee_client"

record world =
  process_env :: environment
  import_sdk :: "error + mnee_class option"

text \<open>The calls that reach the payment rail.\<close>

datatype rail_call =
    ConfigCall
  | TransferCall "(string \<times> real) list" string
  | BalanceCall string
  | FaucetCall string

text \<open>The module's two variables and the three fields of the one \<open>MneePaymentService\<close>.\<close>

record mnee_service =
  Mnee :: "mnee_class option"
  sdkLoaded :: bool
  mnee :: "mnee_client option"
  mneeConfig :: "mnee_config option"
  initialized :: bool

text \<open>The state when the module has been loaded: the constructor has run.\<close>

definition new_service :: mnee_service where
  "new_service = \<lparr>Mnee = None, sdkLoaded = False, mnee = None, mneeConfig = None,
                   initialized = False\<rparr>"

definition loadMneeSdk :: "world \<Rightarrow> mnee_service \<Rightarrow> mnee_class option \<times> mnee_service" where
  "loadMneeSdk w s =
     (if sdkLoaded s then (Mnee s, s)
      else (case import_sdk w of
              Inr exported \<Rightarrow> (exported, s\<lparr>Mnee := exported, sdkLoaded := True\<rparr>)
            | Inl e \<Rightarrow> (None, s)))"

subsection \<open>\<open>initialize\<close>\<close>

definition initialize ::
  "world \<Rightarrow> mnee_service \<Rightarrow> rail_call list \<times> (error + unit) \<times> mnee_service" where
  "initialize w s =
     (case loadMneeSdk w s of
        (None, s1) \<Rightarrow>
          ([], Inl (Error ''MNEE SDK not loaded. Please run: npm install @mnee/ts-sdk''), s1)
      | (Some MneeClass, s1) \<Rightarrow>
          (let environment = or_str (process_env w ''MNEE_ENVIRONMENT'') ''sandbox'';
               apiKey = process_env w ''MNEE_API_KEY''
           in if \<not> truthy_str apiKey
              then ([], Inl (Error ''MNEE_API_KEY not set in environment variables''), s1)
              else
                (case MneeClass \<lparr>opt_environment = environment, opt_apiKey = the apiKey\<rparr> of
                   Inl e \<Rightarrow> ([], Inl e, s1)
                 | Inr client \<Rightarrow>
                     (case config client of
                        Inl e \<Rightarrow> ([ConfigCall], Inl e, s1\<lparr>mnee := Some client\<rparr>)
                      | Inr cfg \<Rightarrow>
                          ([ConfigCall], Inr (),
                           s1\<lparr>mnee := Some client, mneeConfig := cfg,
                              initialized := True\<rparr>)))))"

subsection \<open>\<open>sendPayment\<close> and \<open>getBalance\<close>\<close>

record payment_receipt =
  receipt_success :: bool
  receipt_transactionId :: string
  receipt_amount :: real
  receipt_recipient :: string
  receipt_bountyId :: string

record wallet_balance =
  wallet_address :: string
  wallet_balance :: real
  wallet_pending :: real
  wallet_total :: real

text \<open>A method call on \<open>this.mnee\<close> while it is \<open>null\<close> throws a \<open>TypeError\<close>.\<close>

definition null_client :: error where
  "null_client = TypeError ''Cannot read properties of null''"

definition sendPayment ::
  "world \<Rightarrow> mnee_service \<Rightarrow> string \<Rightarrow> real \<Rightarrow> string
     \<Rightarrow> rail_call list \<times> (error + payment_receipt)" where
  "sendPayment w s recipientAddress amount bountyId =
     (if \<not> initialized s then ([], Inl (Error ''MNEE payment service not initialized''))
      else
        (let request = [(recipientAddress, amount)];
             wif = process_env w ''MNEE_BOT_WIF''
         in if \<not> truthy_str wif then ([], Inl (Error ''MNEE bot WIF not configured''))
            else
              (case mnee s of
                 None \<Rightarrow> ([], Inl null_client)
               | Some client \<Rightarrow>
                   (case transfer client request (the wif) of
                      Inl e \<Rightarrow> ([TransferCall request (the wif)], Inl e)
                    | Inr transactionId \<Rightarrow>
                        ([TransferCall request (the wif)],
                         Inr \<lparr>receipt_success = True, receipt_transactionId = transactionId,
                              receipt_amount = amount, receipt_recipient = recipientAddress,
                              receipt_bountyId = bountyId\<rparr>)))))"

definition getBalance ::
  "world \<Rightarrow> mnee_service \<Rightarrow> rail_call list \<times> (error + wallet_balance)" where
  "getBalance w s =
     (if \<not> initialized s then ([], Inl (Error ''MNEE payment service not initialized''))
      else
        (let address = process_env w ''MNEE_BOT_ADDRESS''
         in if \<not> truthy_str address then ([], Inl (Error ''MNEE bot address not configured''))
            else
              (case mnee s of
                 None \<Rightarrow> ([], Inl null_client)
               | Some client \<Rightarrow>
                   (case balance client (the address) of
                      Inl e \<Rightarrow> ([BalanceCall (the address)], Inl e)
                    | Inr b \<Rightarrow>
                        ([BalanceCall (the address)],
                         Inr \<lparr>wallet_address = the address,
                              wallet_balance = info_balance b,
                              wallet_pending = or_num (info_pending b) 0,
                              wallet_total = info_balance b + or_num (info_pending b) 0\<rparr>)))))"

subsection \<open>\<open>calculateFee\<close>\<close>

definition in_tier :: "real \<Rightarrow> fee_tier \<Rightarrow> bool" where
  "in_tier atomicAmount tier = (atomicAmount \<ge> tier_min tier \<and> atomicAmount \<le> tier_max tier)"

definition calculateFee :: "mnee_service \<Rightarrow> real \<Rightarrow> error + real" where
  "calculateFee s amount =
     (case mneeConfig s of
        None \<Rightarrow> Inl (Error ''MNEE configuration not loaded'')
      | Some cfg \<Rightarrow>
          (case mnee s of
             None \<Rightarrow> Inl null_client
           | Some client \<Rightarrow>
               (let atomicAmount = toAtomicAmount client amount
                in (case find (in_tier atomicAmount) (fees cfg) of
                      None \<Rightarrow> Inl (NoFeeTierFound amount)
                    | Some feeTier \<Rightarrow> Inr (fromAtomicAmount client (tier_fee feeTier))))))"

subsection \<open>\<open>validateAddress\<close>\<close>

text \<open>
  The regular expression \<open>/^[13][a-km-zA-HJ-NP-Z1-9]{25,34}$/\<close> is a sequence of character
  classes, each with the bounds of its repetition (a class alone is repeated once),
  anchored at both ends. \<open>test\<close> asks whether the whole string splits into one run per
  class, each run of an allowed length and made of characters of its class. Without the
  \<open>m\<close> flag \<open>$\<close> matches at the end of the input only. A character is compared by its
  code, as the expression does; every character of the two classes is ASCII.
\<close>

datatype char_range = Single char | Range char char

datatype regex_item = Repeat "char_range list" nat nat

definition in_range :: "char \<Rightarrow> char_range \<Rightarrow> bool" where
  "in_range c r =
     (case r of
        Single x \<Rightarrow> c = x
      | Range lo hi \<Rightarrow> (of_char lo :: nat) \<le> of_char c \<and> (of_char c :: nat) \<le> of_char hi)"

definition in_class :: "char_range list \<Rightarrow> char \<Rightarrow> bool" where
  "in_class cls c = list_ex (in_range c) cls"

fun regex_match :: "regex_item list \<Rightarrow> string \<Rightarrow> bool" where
  "regex_match [] s = (s = [])"
| "regex_match (Repeat cls lo hi # items) s =
     list_ex (\<lambda>k. k \<le> length s \<and> list_all (in_class cls) (take k s)
                  \<and> regex_match items (drop k s)) [lo..<Suc hi]"

definition addressRegex :: "regex_item list" where
  "addressRegex =
     [Repeat [Single CHR ''1'', Single CHR ''3''] 1 1,
      Repeat [Range CHR ''a'' CHR ''k'', Range CHR ''m'' CHR ''z'', Range CHR ''A'' CHR ''H'',
              Range CHR ''J'' CHR ''N'', Range CHR ''P'' CHR ''Z'', Range CHR ''1'' CHR ''9'']
        25 34]"

text \<open>On a string \<open>test\<close> never throws; the \<open>catch\<close> turns any error into \<open>false\<close>.\<close>

definition regex_test :: "regex_item list \<Rightarrow> string \<Rightarrow> error + bool" where
  "regex_test re s = Inr (regex_match re s)"

definition validateAddress :: "string \<Rightarrow> error + bool" where
  "validateAddress address =
     (case regex_test addressRegex address of
        Inr matched \<Rightarrow> Inr matched
      | Inl e \<Rightarrow> Inr False)"

text \<open>
  The shape of a recipient address, in words: a first character \<open>1\<close> or \<open>3\<close>, then 25 to 34
  characters of the Base58 alphabet (the digits and letters without \<open>0\<close>, \<open>O\<close>, \<open>I\<close> and
  \<open>l\<close>).
\<close>

definition base58_alphabet :: string where
  "base58_alphabet = ''123456789ABCDEFGHJKLMNPQRSTUVWXYZabcdefghijkmnopqrstuvwxyz''"

definition address_shape :: "string \<Rightarrow> bool" where
  "address_shape s =
     (case s of
        [] \<Rightarrow> False
      | c # cs \<Rightarrow> (c = CHR ''1'' \<or> c = CHR ''3'') \<and> 25 \<le> length cs \<and> length cs \<le> 34
                 \<and> list_all (\<lambda>x. x \<in> set base58_alphabet) cs)"

subsection \<open>\<open>requestFromFaucet\<close>\<close>

definition requestFromFaucet ::
  "world \<Rightarrow> mnee_service \<Rightarrow> rail_call list \<times> (error + string)" where
  "requestFromFaucet w s =
     (if process_env w ''MNEE_ENVIRONMENT'' \<noteq> Some ''sandbox''
      then ([], Inl (Error ''Faucet is only available in sandbox environment''))
      else
        (let address = process_env w ''MNEE_BOT_ADDRESS''
         in if \<not> truthy_str address then ([], Inl (Error ''MNEE bot address not configured''))
            else
              (case mnee s of
                 None \<Rightarrow> ([], Inl null_client)
               | Some client \<Rightarrow>
                   (case faucet client (the address) of
                      Inl e \<Rightarrow> ([FaucetCall (the address)], Inl e)
                    | Inr result \<Rightarrow> ([FaucetCall (the address)], Inr result)))))"

subsection \<open>The service over time\<close>

text \<open>
  A caller invokes the methods in any order, each in the world of its moment. Only
  \<open>initialize\<close> writes the service's fields.
\<close>

datatype operation =
    Initialize
  | SendPayment string real string
  | GetBalance
  | CalculateFee real
  | ValidateAddress string
  | RequestFromFaucet

fun step :: "world \<times> operation \<Rightarrow> mnee_service \<Rightarrow> mnee_service" where
  "step (w, Initialize) s = snd (snd (initialize w s))"
| "step (w, opn) s = s"

definition run :: "(world \<times> operation) list \<Rightarrow> mnee_service \<Rightarrow> mnee_service" where
  "run steps s = fold step steps s"


text \<open>\<open>initialize\<close> resolves, instead of throwing, exactly when the SDK's class is there, the
  API key is set, the constructor returns a client and the client's \<open>config()\<close> returns.\<close>

definition initialize_succeeds :: "world \<Rightarrow> mnee_service \<Rightarrow> bool" where
  "initialize_succeeds w s =
     (case fst (loadMneeSdk w s) of
        None \<Rightarrow> False
      | Some MneeClass \<Rightarrow>
          truthy_str (process_env w ''MNEE_API_KEY'')
          \<and> (case MneeClass \<lparr>opt_environment = or_str (process_env w ''MNEE_ENVIRONMENT'')
                                                  ''sandbox'',
                              opt_apiKey = the (process_env w ''MNEE_API_KEY'')\<rparr> of
                Inl e \<Rightarrow> False
              | Inr client \<Rightarrow> (case config client of Inl e \<Rightarrow> False | Inr cfg \<Rightarrow> True)))"

text \<open>The client, once there, stays: a loaded configuration or a set flag comes with one.\<close>

definition has_client :: "mnee_service \<Rightarrow> bool" where
  "has_client s = ((mneeConfig s \<noteq> None \<or> initialized s) \<longrightarrow> mnee s \<noteq> None)"

section \<open>The engine behind the routes\<close>

text \<open>
  Modelled from the spec: the services the escalate route reaches when the lifecycle
  engine above stands behind it. The lookup by \<open>NaN\<close> finds nothing.
\<close>

definition engine_services ::
  "(real \<Rightarrow> real) \<Rightarrow> (int \<Rightarrow> real \<Rightarrow> error + string) \<Rightarrow> nat \<Rightarrow> engine \<Rightarrow> services
     \<Rightarrow> services" where
  "engine_services policy escrow_escalate now eng svc =
     svc\<lparr>escalateBounty :=
           (\<lambda>i. case i of
                  None \<Rightarrow> Inr (NotEscalated ''not_found'')
                | Some n \<Rightarrow> fst (snd (spec_escalateBounty policy escrow_escalate now eng n))),
         findOne :=
           (\<lambda>i. case i of
                  None \<Rightarrow> Inr None
                | Some n \<Rightarrow> Inr (find (\<lambda>b. bounty_id b = n) (ledger eng)))\<rparr>"



section \<open>Concrete inputs\<close>

text \<open>Services that accept whatever they are given, and a request for issue 7 of
  \<open>octo/repo\<close> with a chosen amount and maximum amount.\<close>

definition accepting_services :: services where
  "accepting_services =
     \<lparr>createBounty = (\<lambda>a. Inr \<lparr>created_bountyId = 1, created_transactionHash = ''0xfund''\<rparr>),
      claimBounty = (\<lambda>i s p. Inr \<lparr>claim_amount = 10, claim_transactionHash = ''0xclaim''\<rparr>),
      escalateBounty = (\<lambda>i. Inr (NotEscalated ''max_amount_reached'')),
      findOne = (\<lambda>i. Inr None),
      save = (\<lambda>b. Inr ())\<rparr>"

definition request_body :: "jsval \<Rightarrow> jsval \<Rightarrow> create_body" where
  "request_body amt mx =
     \<lparr>body_repository = String ''octo/repo'', body_issueId = Number (Finite 7 0),
      body_issueUrl = String ''https://github.com/octo/repo/issues/7'',
      body_amount = amt, body_maxAmount = mx, body_metadata = Undefined\<rparr>"

definition forwarded_args :: "jsval \<Rightarrow> jsval \<Rightarrow> create_args" where
  "forwarded_args amt mx =
     \<lparr>arg_repository = String ''octo/repo'', arg_issueId = Number (Finite 7 0),
      arg_amount = amt, arg_maxAmount = mx,
      arg_issueUrl = String ''https://github.com/octo/repo/issues/7'',
      arg_metadata = Undefined\<rparr>"

text \<open>
  Conversions that agree with JavaScript on the empty string (zero) and on a string of
  decimal digits (its value, rounded), and give \<open>NaN\<close> elsewhere; JavaScript accepts more
  strings than these.
\<close>

definition whole_number_conversions :: conversions where
  "whole_number_conversions =
     \<lparr>StringToNumber = (\<lambda>s. if list_all (is_digit 10) s
                             then number_of_int (int (digits_value 10 0 s)) else NaN),
      ObjectToNumber = (\<lambda>v. NaN)\<rparr>"

text \<open>The amounts 0.1 and 10, an escrow that funds and a ledger that inserts.\<close>

definition tenth :: jsval where
  "tenth = Number (Finite 3602879701896397 (- 55))"

definition ten :: jsval where
  "ten = Number (Finite 5 1)"




text \<open>Bounty 1 on that issue, with a chosen current amount and status; its maximum is 30.\<close>

definition bounty_one :: "real \<Rightarrow> string \<Rightarrow> bounty" where
  "bounty_one cur st =
     \<lparr>bounty_id = 1, repository = ''octo/repo'', issue_id = 7,
      issue_url = ''https://github.com/octo/repo/issues/7'', initial_amount = 10,
      current_amount = cur, max_amount = 30, status = Some st, solver = None,
      claimed_amount = None, transaction_hash = ''0xfund'', claim_transaction_hash = None,
      block_number = 100, pull_request_url = None, escalation_count = 0,
      last_escalation = None\<rparr>"

definition claimed_services :: services where
  "claimed_services = accepting_services\<lparr>findOne := (\<lambda>i. Inr (Some (bounty_one 10 ''claimed'')))\<rparr>"

definition claim_request :: claim_body where
  "claim_request =
     \<lparr>body_solver = Some ''alice'',
      body_pullRequestUrl = Some ''https://github.com/octo/repo/pull/8'',
      body_paymentTxId = None\<rparr>"

definition capped_engine :: engine where
  "capped_engine = \<lparr>ledger = [bounty_one 30 ''active''], claims_in_flight = []\<rparr>"

definition half_again :: "real \<Rightarrow> real" where
  "half_again x = x * 3 / 2"

definition escrow_ok :: "int \<Rightarrow> real \<Rightarrow> error + string" where
  "escrow_ok i x = Inr ''0xesc''"

text \<open>Two inserts for the same issue of the same repository, under two bounty identifiers.\<close>

definition insert_for_issue :: "int \<Rightarrow> (string \<times> sql_value) list" where
  "insert_for_issue n =
     [(''bounty_id'', IntV n), (''repository'', StrV ''octo/repo''), (''issue_id'', IntV 7),
      (''issue_url'', StrV ''u''), (''initial_amount'', NumV 10), (''current_amount'', NumV 10),
      (''max_amount'', NumV 30), (''transaction_hash'', StrV ''0xfund''),
      (''block_number'', IntV 100)]"

definition duplicated_ledger :: table where
  "duplicated_ledger =
     execute_all [(0, Insert (insert_for_issue 1)), (1, Insert (insert_for_issue 2))]
       fresh_ledger"

text \<open>An environment that asks for a check every minute.\<close>

definition every_minute_env :: environment where
  "every_minute_env = (\<lambda>name. if name = ''ESCALATION_CHECK_INTERVAL'' then Some ''60000''
                                else None)"

definition at_minute :: "nat \<Rightarrow> clock" where
  "at_minute m = \<lparr>minute = m, hour = 12, day_of_month = 3, month = 11, day_of_week = 2\<rparr>"

text \<open>A client of the payment rail with two fee tiers, and the worlds around it.\<close>

definition demo_config :: mnee_config where
  "demo_config =
     \<lparr>decimals = 5, tokenId = ''mnee'', feeAddress = ''1FeeAddress'',
      fees = [\<lparr>tier_min = 0, tier_max = 1000000, tier_fee = 100\<rparr>,
              \<lparr>tier_min = 500000, tier_max = 100000000, tier_fee = 1000\<rparr>]\<rparr>"

definition demo_client :: mnee_client where
  "demo_client =
     \<lparr>config = Inr (Some demo_config),
      transfer = (\<lambda>request wif. Inr ''tx1''),
      balance = (\<lambda>address. Inr \<lparr>info_balance = 50, info_pending = None\<rparr>),
      faucet = (\<lambda>address. Inr ''drip''),
      toAtomicAmount = (\<lambda>a. a * 100000),
      fromAtomicAmount = (\<lambda>a. a / 100000)\<rparr>"

definition demo_world :: "string option \<Rightarrow> world" where
  "demo_world mode =
     \<lparr>process_env = (\<lambda>name. if name = ''MNEE_ENVIRONMENT'' then mode
                             else if name = ''MNEE_API_KEY'' then Some ''key''
                             else if name = ''MNEE_BOT_ADDRESS'' then Some ''1BotAddress''
                             else if name = ''MNEE_BOT_WIF'' then Some ''wif''
                             else None),
      import_sdk = Inr (Some (\<lambda>options. Inr demo_client))\<rparr>"

definition ready_service :: mnee_service where
  "ready_service = run [(demo_world (Some ''sandbox''), Initialize)] new_service"


text \<open>A table that has the columns and the indexes of the script.\<close>

definition bounties_schema :: "table \<Rightarrow> bool" where
  "bounties_schema t = (tbl_columns t = bounties_columns \<and> tbl_indexes t = bounties_indexes)"

section \<open>Properties of the routes\<close>

lemmas truthy_defs = truthy_str_def or_num_def or_str_def

lemma parseInt_1: "parseInt ''1'' = Some 1"
  by (simp add: parseInt_def is_white_def strip_prefix_0x_def parse_digits_def is_digit_def
      digit_val_def)

subsection \<open>Rounding to a double\<close>

lemma pow2_powi: "pow2 k = 2 powi k"
  by (simp add: pow2_def power_int_def field_simps)

lemma pow2_pos: "0 < pow2 k"
  by (simp add: pow2_powi)

lemma pow2_add: "pow2 (a + b) = pow2 a * pow2 b"
  by (simp add: pow2_powi power_int_add)

lemma pow2_nat: "pow2 (int k) = 2 ^ k"
  by (simp add: pow2_def)

lemma dyadic_shift: "dyadic (m * 2 ^ k) e = dyadic m (e + int k)"
  by (simp add: dyadic_def pow2_add pow2_nat)

lemma bit_length_pos: "0 < n \<Longrightarrow> 0 < bit_length n"
  by (subst bit_length.simps) simp

lemma bit_length_bounds:
  "0 < n \<Longrightarrow> 2 ^ (bit_length n - 1) \<le> n \<and> n < 2 ^ bit_length n"
proof (induction n rule: bit_length.induct)
  case (1 n)
  show ?case
  proof (cases "n = 1")
    case True
    have "bit_length 1 = 1"
      by (subst bit_length.simps, subst bit_length.simps) simp
    then show ?thesis using True by simp
  next
    case False
    then have half: "0 < n div 2" using "1.prems" by linarith
    have bl: "bit_length n = Suc (bit_length (n div 2))"
      using "1.prems" by (subst bit_length.simps) simp
    have IH: "2 ^ (bit_length (n div 2) - 1) \<le> n div 2 \<and> n div 2 < 2 ^ bit_length (n div 2)"
      using "1.IH" "1.prems" half by simp
    have pos: "0 < bit_length (n div 2)" using half by (rule bit_length_pos)
    then obtain j where j: "bit_length (n div 2) = Suc j" by (cases "bit_length (n div 2)") auto
    have "2 * 2 ^ j \<le> n" using IH j by simp linarith
    moreover have "n < 2 * 2 ^ Suc j" using IH j by simp linarith
    ultimately show ?thesis using bl j by simp
  qed
qed

text \<open>Stripping the even factors keeps the value and does not lower the exponent.\<close>

lemma strip_value: "strip m e = (m', e') \<Longrightarrow> dyadic m' e' = dyadic m e"
proof (induction m e rule: strip.induct)
  case (1 m e)
  show ?case
  proof (cases "m = 0")
    case True
    then show ?thesis using "1.prems" by (simp add: strip.simps dyadic_def)
  next
    case False
    show ?thesis
    proof (cases "even m")
      case True
      then have "strip (m div 2) (e + 1) = (m', e')"
        using "1.prems" False by (subst (asm) strip.simps) simp
      then have "dyadic m' e' = dyadic (m div 2) (e + 1)"
        using "1.IH" False True by simp
      also have "\<dots> = dyadic (m div 2 * 2 ^ 1) e"
        using dyadic_shift[of "m div 2" 1 e] by simp
      also have "m div 2 * 2 ^ 1 = m" using True by simp
      finally show ?thesis .
    next
      case odd: False
      then show ?thesis using "1.prems" False by (subst (asm) strip.simps) simp
    qed
  qed
qed

lemma strip_exponent: "strip m e = (m', e') \<Longrightarrow> m \<noteq> 0 \<Longrightarrow> e \<le> e' \<and> m' \<noteq> 0"
proof (induction m e rule: strip.induct)
  case (1 m e)
  show ?case
  proof (cases "even m")
    case True
    then have step: "strip (m div 2) (e + 1) = (m', e')"
      using "1.prems" by (subst (asm) strip.simps) simp
    have "m div 2 \<noteq> 0" using True "1.prems"(2) by auto
    then show ?thesis using "1.IH" "1.prems"(2) True step by fastforce
  next
    case False
    then show ?thesis using "1.prems" by (subst (asm) strip.simps) auto
  qed
qed

lemma round_half_even_ge: "0 \<le> m \<Longrightarrow> m div 2 ^ k \<le> round_half_even m k"
  by (simp add: round_half_even_def Let_def)

text \<open>What rounding returns for a positive mantissa: an infinity, or a double whose value is
  the exact one when that has no more than 53 digits above \<open>2 ^ - 1074\<close>, and else the
  rounded one.\<close>

lemma round_dyadic_pos:
  assumes "0 < m"
  shows "round_dyadic m e = PosInf \<or>
         (\<exists>m' e'. round_dyadic m e = Finite m' e' \<and> - 1074 \<le> e' \<and>
            dyadic m' e' =
              (if e + int (bit_length m) - 53 \<le> e \<and> - 1074 \<le> e then dyadic m e
               else dyadic (round_half_even m (nat (max (e + int (bit_length m) - 53) (- 1074) - e)))
                      (max (e + int (bit_length m) - 53) (- 1074))))"
proof -
  let ?u = "max (e + int (bit_length m) - 53) (- 1074)"
  let ?n = "if ?u \<le> e then m else round_half_even m (nat (?u - e))"
  let ?e' = "max ?u e"
  obtain m' e'' where st: "strip ?n ?e' = (m', e'')" by (cases "strip ?n ?e'")
  have val: "dyadic m' e'' = dyadic ?n ?e'" using strip_value[OF st] .
  have expo: "- 1074 \<le> e''"
  proof (cases "?n = 0")
    case True
    then show ?thesis using st by (simp add: strip.simps)
  next
    case False
    then show ?thesis using strip_exponent[OF st] by auto
  qed
  have abs: "\<bar>m\<bar> = m" using assms by simp
  have res: "round_dyadic m e = PosInf \<or> round_dyadic m e = Finite m' e''"
    using assms st by (auto simp: round_dyadic_def Let_def abs)
  show ?thesis
  proof (cases "round_dyadic m e = PosInf")
    case True
    then show ?thesis by simp
  next
    case False
    then have "round_dyadic m e = Finite m' e''" using res by simp
    moreover have "dyadic m' e'' =
              (if e + int (bit_length m) - 53 \<le> e \<and> - 1074 \<le> e then dyadic m e
               else dyadic (round_half_even m (nat (?u - e))) ?u)"
      using val by (auto simp: max_def split: if_splits)
    ultimately show ?thesis using expo by blast
  qed
qed

lemma div_pow2_ge:
  fixes a c :: int
  assumes "a * 2 ^ k \<le> c"
  shows "a \<le> c div 2 ^ k"
proof -
  have "a * 2 ^ k div 2 ^ k \<le> c div 2 ^ k"
    using assms by (intro zdiv_mono1) simp_all
  then show ?thesis by simp
qed

text \<open>Three times a positive value at or above the smallest place rounds to no less than
  the value.\<close>

lemma triple_ge:
  assumes "0 < m" and "- 1074 \<le> e"
  shows "js_le (Finite m e) (round_dyadic (m * 3) e)"
proof -
  let ?bl = "bit_length (m * 3)"
  have pos3: "0 < m * 3" using assms(1) by simp
  have bounds: "2 ^ (?bl - 1) \<le> m * 3" "m * 3 < 2 ^ ?bl"
    using bit_length_bounds[OF pos3] by simp_all
  consider (inf) "round_dyadic (m * 3) e = PosInf"
    | (fin) m' e' where "round_dyadic (m * 3) e = Finite m' e'"
        "dyadic m' e' =
              (if e + int ?bl - 53 \<le> e \<and> - 1074 \<le> e then dyadic (m * 3) e
               else dyadic (round_half_even (m * 3) (nat (max (e + int ?bl - 53) (- 1074) - e)))
                      (max (e + int ?bl - 53) (- 1074)))"
    using round_dyadic_pos[OF pos3, of e] by blast
  then show ?thesis
  proof cases
    case inf
    then show ?thesis by simp
  next
    case fin
    show ?thesis
    proof (cases "?bl \<le> 53")
      case True
      then have "dyadic m' e' = dyadic (m * 3) e" using fin(2) assms(2) by simp
      moreover have "dyadic m e \<le> dyadic (m * 3) e"
        using assms(1) pow2_pos[of e] by (simp add: dyadic_def mult_right_mono)
      ultimately show ?thesis using fin(1) by simp
    next
      case False
      then obtain k where k: "?bl = 53 + Suc k"
        by (metis add_Suc_right less_imp_Suc_add not_le_imp_less)
      have u: "max (e + int ?bl - 53) (- 1074) = e + int (Suc k)"
        using assms(2) k by simp
      let ?q = "round_half_even (m * 3) (Suc k)"
      have nk: "nat (1 + int k) = Suc k" by linarith
      have cond: "\<not> (e + int ?bl - 53 \<le> e \<and> - 1074 \<le> e)" using k by simp
      have val: "dyadic m' e' = dyadic ?q (e + int (Suc k))"
        using fin(2) nk by (simp only: cond if_False u) simp
      have lo: "2 ^ 52 * 2 ^ Suc k \<le> m * 3"
        using bounds(1) k by (simp add: power_add)
      have hi: "m * 3 < 2 * (2 ^ 52 * 2 ^ Suc k)"
        using bounds(2) k by (simp add: power_add)
      have "(2 ^ 52 :: int) \<le> m * 3 div 2 ^ Suc k" using lo by (rule div_pow2_ge)
      also have "\<dots> \<le> ?q" using pos3 by (intro round_half_even_ge) simp
      finally have q: "(2 ^ 52 :: int) \<le> ?q" .
      define X :: int where "X = 2 ^ 52 * 2 ^ Suc k"
      have "0 < X" by (simp add: X_def)
      then have "m < X" using hi unfolding X_def[symmetric] by linarith
      then have "m < 2 ^ 52 * 2 ^ Suc k" by (simp only: X_def)
      also have "(2 ^ 52 :: int) * 2 ^ Suc k \<le> ?q * 2 ^ Suc k"
        using q by (intro mult_right_mono) simp_all
      finally have "m \<le> ?q * 2 ^ Suc k" by simp
      then have "(of_int m :: real) \<le> of_int (?q * 2 ^ Suc k)"
        by (simp only: of_int_le_iff)
      then have "dyadic m e \<le> dyadic (?q * 2 ^ Suc k) e"
        unfolding dyadic_def using pow2_pos[of e] by (intro mult_right_mono) simp_all
      then have "dyadic m e \<le> dyadic ?q (e + int (Suc k))"
        by (simp only: dyadic_shift)
      then show ?thesis using fin(1) val by simp
    qed
  qed
qed

text \<open>The last place of a double other than zero is at or above \<open>2 ^ - 1074\<close>.\<close>

lemma double_exponent:
  assumes "is_double (Finite m e)" and "m \<noteq> 0"
  shows "- 1074 \<le> e"
proof -
  let ?u = "max (e + int (bit_length \<bar>m\<bar>) - 53) (- 1074)"
  let ?n = "if ?u \<le> e then \<bar>m\<bar> else round_half_even \<bar>m\<bar> (nat (?u - e))"
  obtain m' e'' where st: "strip ?n (max ?u e) = (m', e'')" by (cases "strip ?n (max ?u e)")
  have eq: "Finite (if m < 0 then - m' else m') e'' = Finite m e"
    using assms(1) st by (auto simp: is_double_def round_dyadic_def Let_def split: if_splits)
  then have "m' \<noteq> 0" "e'' = e" using assms(2) by (auto split: if_splits)
  have "?n \<noteq> 0"
  proof
    assume "?n = 0"
    then have "strip ?n (max ?u e) = (0, 0)" by (simp add: strip.simps)
    then show False using st \<open>m' \<noteq> 0\<close> by simp
  qed
  then have "max ?u e \<le> e''" using strip_exponent[OF st] by simp
  then show ?thesis using \<open>e'' = e\<close> by simp
qed

text \<open>A value of at most 53 digits, within the range, is not changed by rounding.\<close>

lemma round_dyadic_exact:
  assumes "0 < m" and "bit_length m \<le> 53" and "- 1074 \<le> e"
    and "int (bit_length m) + e \<le> 1024"
  shows "\<exists>m' e'. round_dyadic m e = Finite m' e' \<and> dyadic m' e' = dyadic m e"
proof -
  have u: "max (e + int (bit_length m) - 53) (- 1074) \<le> e" using assms(2,3) by simp
  obtain m' e' where st: "strip m e = (m', e')" by (cases "strip m e")
  have "round_dyadic m e = Finite m' e'"
    using assms(1,4) u st by (simp add: round_dyadic_def Let_def max_absorb2)
  then show ?thesis using strip_value[OF st] by blast
qed

text \<open>The double written for 0.1 is a double, and the one nearest to the decimal: its two
  neighbours are farther from one tenth. Three times it rounds up, and 10 times 3 is 30.\<close>

lemma tenth_is_double: "is_double (Finite 3602879701896397 (- 55))"
  by code_simp

lemma tenth_nearest:
  "\<bar>dyadic 3602879701896397 (- 55) - 1 / 10\<bar> < \<bar>dyadic 7205759403792793 (- 56) - 1 / 10\<bar>
   \<and> \<bar>dyadic 3602879701896397 (- 55) - 1 / 10\<bar> < \<bar>dyadic 7205759403792795 (- 56) - 1 / 10\<bar>"
  by (simp add: dyadic_def pow2_def)

lemma triple_tenth:
  "round_dyadic 10808639105689191 (- 55) = Finite 1351079888211149 (- 52)"
  by code_simp

lemma triple_ten: "round_dyadic 15 1 = Finite 15 1"
  by code_simp


lemma ten_is_double: "is_double (Finite 5 1)"
  by code_simp


subsection \<open>The create route\<close>

text \<open>The calls of the create route do not depend on what the service answers.\<close>

lemma post_create_calls: "fst (post_create js svc body) = fst (post_create js svc' body)"
  by (simp add: post_create_def Let_def split: sum.splits)

text \<open>When the amount is a number they do not depend on the conversions either.\<close>

lemma post_create_calls_number:
  "body_amount body = Number x \<Longrightarrow>
   fst (post_create js svc body) = fst (post_create js' svc' body)"
  by (simp add: post_create_def Let_def split: sum.splits)

text \<open>
  C1, as amended. For every bounty-creation request that has its required fields, in
  which maxAmount is unset and the amount is a positive finite number, \<open>createBounty\<close> is
  invoked once, with the amount as given and a maximum amount equal to \<open>amount * 3\<close> as
  JavaScript computes it, in double arithmetic: that maximum is at least the amount, and
  it is exactly 3 times the amount whenever 3 times the amount is itself a double (53
  binary digits hold it and it does not overflow).
\<close>

theorem create_default_max_amount:
  assumes "truthy (body_repository body)" and "truthy (body_issueId body)"
    and "truthy (body_issueUrl body)" and "truthy (body_amount body)"
    and "body_maxAmount body = Undefined"
    and "ToNumber js (body_amount body) = Finite m e"
    and "is_double (Finite m e)" and "0 < m"
  shows "\<exists>mx. fst (post_create js svc body) =
                 [CreateBounty \<lparr>arg_repository = body_repository body,
                    arg_issueId = body_issueId body, arg_amount = body_amount body,
                    arg_maxAmount = Number mx, arg_issueUrl = body_issueUrl body,
                    arg_metadata = body_metadata body\<rparr>]
              \<and> mx = js_times (Finite m e) (Finite 3 0)
              \<and> js_le (Finite m e) mx
              \<and> (bit_length (m * 3) \<le> 53 \<and> int (bit_length (m * 3)) + e \<le> 1024 \<longrightarrow>
                   (\<exists>m' e'. mx = Finite m' e' \<and> dyadic m' e' = 3 * dyadic m e))"
proof -
  have low: "- 1074 \<le> e" using double_exponent[OF assms(7)] assms(8) by simp
  have calls: "fst (post_create js svc body) =
                 [CreateBounty \<lparr>arg_repository = body_repository body,
                    arg_issueId = body_issueId body, arg_amount = body_amount body,
                    arg_maxAmount = Number (js_times (Finite m e) (Finite 3 0)),
                    arg_issueUrl = body_issueUrl body, arg_metadata = body_metadata body\<rparr>]"
    using assms(1-6) by (simp add: post_create_def js_or_def Let_def split: sum.splits)
  have ge: "js_le (Finite m e) (js_times (Finite m e) (Finite 3 0))"
    using triple_ge[OF assms(8) low] by simp
  have exact: "\<exists>m' e'. js_times (Finite m e) (Finite 3 0) = Finite m' e'
                  \<and> dyadic m' e' = 3 * dyadic m e"
    if digits: "bit_length (m * 3) \<le> 53" and range: "int (bit_length (m * 3)) + e \<le> 1024"
  proof -
    have "0 < m * 3" using assms(8) by simp
    then obtain m' e' where "round_dyadic (m * 3) e = Finite m' e'"
      "dyadic m' e' = dyadic (m * 3) e"
      using round_dyadic_exact[OF _ digits low range] by blast
    moreover have "dyadic (m * 3) e = 3 * dyadic m e" by (simp add: dyadic_def)
    ultimately show ?thesis by simp
  qed
  show ?thesis using calls ge exact by blast
qed

theorem create_default_max_amount_witness:
  "fst (post_create whole_number_conversions accepting_services (request_body ten Undefined))
     = [CreateBounty (forwarded_args ten (Number (Finite 15 1)))]
   \<and> js_le (Finite 5 1) (Finite 15 1)
   \<and> dyadic 15 1 = 3 * dyadic 5 1"
  using create_default_max_amount
    [of "request_body ten Undefined" whole_number_conversions 5 1 accepting_services]
    ten_is_double
  by (simp add: request_body_def forwarded_args_def ten_def triple_ten dyadic_def pow2_def)

text \<open>
  C1 as stated fails at the amount 0.1, which is positive. With no maxAmount the handler
  invokes \<open>createBounty\<close> with \<open>0.1 * 3\<close>, which JavaScript rounds up to the double
  \<open>Finite 1351079888211149 (- 52)\<close>, printed 0.30000000000000004: it is not exactly 3
  times the requested amount.
\<close>

theorem create_tenth_counterexample:
  "fst (post_create whole_number_conversions accepting_services (request_body tenth Undefined))
     = [CreateBounty (forwarded_args tenth (Number (Finite 1351079888211149 (- 52))))]
   \<and> is_double (Finite 3602879701896397 (- 55))
   \<and> dyadic 1351079888211149 (- 52) \<noteq> 3 * dyadic 3602879701896397 (- 55)"
  using tenth_is_double
  by (simp add: post_create_def js_or_def request_body_def forwarded_args_def tenth_def
      accepting_services_def triple_tenth dyadic_def pow2_def)



text \<open>
  C6. For every claim request on a bounty that the lookup finds and whose status is not
  \<open>active\<close>, the handler answers 400 with an error body, an expected branch and not the
  exception path, and the only call it has made is the lookup: \<open>claimBounty\<close> is not
  invoked and the bounty is not saved.
\<close>

theorem claim_rejected_unless_active:
  assumes "findOne svc (parseInt bountyId) = Inr (Some b)" and "status b \<noteq> Some ''active''"
  shows "(\<exists>msg. snd (post_claim svc bountyId body) = respond 400 (ErrorBody msg))
         \<and> (\<forall>c \<in> set (fst (post_claim svc bountyId body)). c = FindOne (parseInt bountyId))"
  using assms by (auto simp: post_claim_def Let_def)

theorem claim_rejected_unless_active_witness:
  "post_claim claimed_services ''1'' claim_request
     = ([FindOne (Some 1)], respond 400 (ErrorBody ''Bounty is not active''))
   \<and> (\<exists>msg. snd (post_claim claimed_services ''1'' claim_request) = respond 400 (ErrorBody msg))"
  using claim_rejected_unless_active
    [of claimed_services "''1''" "bounty_one 10 ''claimed''" claim_request]
  by (simp add: post_claim_def claimed_services_def accepting_services_def claim_request_def
      bounty_one_def parseInt_1 truthy_defs)

text \<open>
  C3. For every bounty of the ledger whose current amount equals its maximum amount,
  \<open>escalateBounty\<close> returns the result \<open>{success: false, reason: 'max_amount_reached'}\<close>,
  a value and not an exception, makes no call to a rail and leaves the engine as it was;
  and the escalate route, for such a bounty that is active, answers 200 with that result.
\<close>

theorem escalate_at_max_amount:
  assumes "find (\<lambda>b. bounty_id b = bountyId) (ledger eng) = Some b"
    and "current_amount b = max_amount b"
  shows "spec_escalateBounty policy escrow now eng bountyId
           = ([], Inr (NotEscalated ''max_amount_reached''), eng)
         \<and> (parseInt path = Some bountyId \<and> status b = Some ''active'' \<longrightarrow>
              post_escalate (engine_services policy escrow now eng svc) path
                = ([FindOne (Some bountyId), EscalateBounty (Some bountyId)],
                   respond 200 (NotEscalatedBody ''max_amount_reached'')))"
  using assms by (simp add: spec_escalateBounty_def post_escalate_def engine_services_def)

theorem escalate_at_max_amount_witness:
  "spec_escalateBounty half_again escrow_ok 5 capped_engine 1
     = ([], Inr (NotEscalated ''max_amount_reached''), capped_engine)
   \<and> post_escalate (engine_services half_again escrow_ok 5 capped_engine accepting_services) ''1''
       = ([FindOne (Some 1), EscalateBounty (Some 1)],
          respond 200 (NotEscalatedBody ''max_amount_reached''))"
  using escalate_at_max_amount
    [of 1 capped_engine "bounty_one 30 ''active''" half_again escrow_ok 5 "''1''"
        accepting_services]
  by (simp add: capped_engine_def bounty_one_def parseInt_1)

section \<open>Properties of the scheduler\<close>

text \<open>The jobs registered do not depend on the environment.\<close>

lemma scheduler_ignores_environment:
  "startEscalationScheduler env = startEscalationScheduler env'"
  by (simp add: startEscalationScheduler_def)

text \<open>
  C5 fails on the code. With \<open>ESCALATION_CHECK_INTERVAL\<close> set to 60000, one minute, the
  scheduler still registers the one job \<open>'0 * * * *'\<close>: it fires at minute 0 of the hour
  and not one minute later.
\<close>

theorem scheduler_every_minute_still_hourly:
  "startEscalationScheduler every_minute_env
     = [\<lparr>cron_expression = [At 0, Star, Star, Star, Star],
          cron_task = ''escalationService.checkAndEscalateBounties''\<rparr>]
   \<and> list_all (\<lambda>job. fires job (at_minute 0)) (startEscalationScheduler every_minute_env)
   \<and> list_all (\<lambda>job. \<not> fires job (at_minute 1)) (startEscalationScheduler every_minute_env)"
  by (simp add: startEscalationScheduler_def fires_def field_matches_def at_minute_def)


section \<open>Properties of the ledger schema\<close>

lemma fresh_ledger_eq:
  "fresh_ledger = \<lparr>tbl_columns = bounties_columns, tbl_indexes = bounties_indexes,
                    tbl_rows = [], tbl_seq = 1\<rparr>"
  by (simp add: fresh_ledger_def initDb_def create_table_if_not_exists_def
      create_index_if_not_exists_def bounties_indexes_def)

lemma fresh_fields:
  "tbl_columns fresh_ledger = bounties_columns" "tbl_rows fresh_ledger = []"
  "tbl_seq fresh_ledger = 1"
  by (simp_all add: fresh_ledger_eq)

text \<open>The constraints are those of the columns and the indexes, whatever the rows and the
  sequence are.\<close>

lemma constraints_hold_schema:
  "tbl_columns t = tbl_columns t' \<Longrightarrow> tbl_indexes t = tbl_indexes t'
     \<Longrightarrow> constraints_hold t rs = constraints_hold t' rs"
  by (simp add: constraints_hold_def unique_keys_def)

text \<open>The script makes two keys unique, \<open>id\<close> and \<open>bounty_id\<close>, and no other.\<close>

lemma unique_keys_bounties:
  "bounties_schema t \<Longrightarrow> unique_keys t = [[''id''], [''bounty_id'']]"
  by (simp add: bounties_schema_def unique_keys_def bounties_columns_def bounties_indexes_def
      is_unique_def)

lemma commit_keeps:
  assumes "bounties_schema t" and "constraints_hold t (tbl_rows t)"
  shows "bounties_schema (snd (commit t rs))
         \<and> constraints_hold (snd (commit t rs)) (tbl_rows (snd (commit t rs)))"
  using assms constraints_hold_schema[of "t\<lparr>tbl_rows := rs\<rparr>" t rs]
  by (simp add: commit_def bounties_schema_def)

lemma execute_keeps:
  assumes "bounties_schema t" and "constraints_hold t (tbl_rows t)"
  shows "bounties_schema (snd (execute now st t))
         \<and> constraints_hold (snd (execute now st t)) (tbl_rows (snd (execute now st t)))"
proof (cases st)
  case (Insert vals)
  let ?t1 = "t\<lparr>tbl_seq := tbl_seq t + 1\<rparr>"
  have "bounties_schema ?t1" "constraints_hold ?t1 (tbl_rows ?t1)"
    using assms constraints_hold_schema[of ?t1 t "tbl_rows t"]
    by (simp_all add: bounties_schema_def)
  then show ?thesis
    using Insert assms commit_keeps[of ?t1] commit_keeps[of t]
    by (simp add: Let_def)
next
  case (Update cond vals)
  then show ?thesis using assms commit_keeps[of t] by simp
next
  case (Delete cond)
  then show ?thesis using assms commit_keeps[of t] by simp
qed

lemma execute_all_keeps:
  "bounties_schema t \<Longrightarrow> constraints_hold t (tbl_rows t)
     \<Longrightarrow> bounties_schema (execute_all sts t)
         \<and> constraints_hold (execute_all sts t) (tbl_rows (execute_all sts t))"
proof (induction sts arbitrary: t)
  case Nil
  then show ?case by simp
next
  case (Cons a sts)
  obtain now st where a: "a = (now, st)" by (cases a)
  show ?case using Cons.IH[of "snd (execute now st t)"] execute_keeps[OF Cons.prems, of now st]
    by (simp add: a)
qed

lemma fresh_ledger_ok:
  "bounties_schema fresh_ledger" "constraints_hold fresh_ledger (tbl_rows fresh_ledger)"
  by (simp_all add: fresh_ledger_eq bounties_schema_def constraints_hold_def list_all_iff)

lemma key_distinct_nth:
  "key_distinct key rs \<Longrightarrow> i < j \<Longrightarrow> j < length rs \<Longrightarrow> \<not> collide key (rs ! i) (rs ! j)"
proof (induction rs arbitrary: i j)
  case Nil
  then show ?case by simp
next
  case (Cons r rs)
  show ?case
  proof (cases i)
    case 0
    then obtain j' where "j = Suc j'" using Cons.prems(2) by (cases j) auto
    then show ?thesis using Cons.prems 0 by (auto simp: list_all_iff)
  next
    case (Suc i')
    then obtain j' where "j = Suc j'" using Cons.prems(2) by (cases j) auto
    then show ?thesis using Cons.prems Suc Cons.IH[of i' j'] by auto
  qed
qed

lemma row_ok_not_null:
  "row_ok bounties_columns r \<Longrightarrow> r ''bounty_id'' \<noteq> NULL \<and> r ''id'' \<noteq> NULL"
  by (simp add: row_ok_def bounties_columns_def is_not_null_def)

text \<open>
  C2, as amended. The schema created at initialization makes the bounty identifier (and
  the serial \<open>id\<close>) unique: after any sequence of statements on the ledger that \<open>initDb\<close>
  created, every two distinct rows differ in \<open>bounty_id\<close> and in \<open>id\<close>.
\<close>

theorem ledger_bounty_id_unique:
  assumes "i < j" and "j < length (tbl_rows (execute_all sts fresh_ledger))"
  shows "(tbl_rows (execute_all sts fresh_ledger) ! i) ''bounty_id''
           \<noteq> (tbl_rows (execute_all sts fresh_ledger) ! j) ''bounty_id''
         \<and> (tbl_rows (execute_all sts fresh_ledger) ! i) ''id''
           \<noteq> (tbl_rows (execute_all sts fresh_ledger) ! j) ''id''"
proof -
  let ?t = "execute_all sts fresh_ledger"
  have inv: "bounties_schema ?t" "constraints_hold ?t (tbl_rows ?t)"
    using execute_all_keeps[OF fresh_ledger_ok] by simp_all
  have cols: "tbl_columns ?t = bounties_columns" using inv(1) by (simp add: bounties_schema_def)
  have "i < length (tbl_rows ?t)" using assms by simp
  then have "tbl_rows ?t ! i \<in> set (tbl_rows ?t)" by simp
  then have "row_ok bounties_columns (tbl_rows ?t ! i)"
    using inv(2) cols by (simp add: constraints_hold_def list_all_iff)
  then have nn: "(tbl_rows ?t ! i) ''bounty_id'' \<noteq> NULL" "(tbl_rows ?t ! i) ''id'' \<noteq> NULL"
    using row_ok_not_null by simp_all
  have "key_distinct [''id''] (tbl_rows ?t)" "key_distinct [''bounty_id''] (tbl_rows ?t)"
    using inv(2) unique_keys_bounties[OF inv(1)] by (simp_all add: constraints_hold_def)
  then have "\<not> collide [''id''] (tbl_rows ?t ! i) (tbl_rows ?t ! j)"
    "\<not> collide [''bounty_id''] (tbl_rows ?t ! i) (tbl_rows ?t ! j)"
    using key_distinct_nth assms by blast+
  then show ?thesis using nn by (simp add: collide_def)
qed

text \<open>The two inserts for the same issue are both accepted.\<close>

lemma serial_drawn:
  "bounties_schema t \<Longrightarrow>
   list_ex (\<lambda>c. col_type c = SERIAL \<and> map_of (insert_for_issue n) (col_name c) = None)
     (tbl_columns t)"
  by (simp add: bounties_schema_def bounties_columns_def insert_for_issue_def)

lemma known_insert: "bounties_schema t \<Longrightarrow> known_columns t (insert_for_issue n)"
  by (simp add: bounties_schema_def known_columns_def insert_for_issue_def bounties_columns_def)

lemma first_ok:
  "constraints_hold fresh_ledger [make_row bounties_columns 0 1 (insert_for_issue 1)]"
  by code_simp

lemma second_ok:
  "constraints_hold fresh_ledger [make_row bounties_columns 0 1 (insert_for_issue 1),
     make_row bounties_columns 1 2 (insert_for_issue 2)]"
  by code_simp

lemma insert_step:
  assumes "bounties_schema t"
    and "constraints_hold fresh_ledger
           (tbl_rows t @ [make_row bounties_columns now (tbl_seq t) (insert_for_issue n)])"
  shows "tbl_rows (snd (execute now (Insert (insert_for_issue n)) t))
           = tbl_rows t @ [make_row bounties_columns now (tbl_seq t) (insert_for_issue n)]
         \<and> tbl_seq (snd (execute now (Insert (insert_for_issue n)) t)) = tbl_seq t + 1
         \<and> bounties_schema (snd (execute now (Insert (insert_for_issue n)) t))"
proof -
  let ?t1 = "t\<lparr>tbl_seq := tbl_seq t + 1\<rparr>"
  let ?rs = "tbl_rows t @ [make_row bounties_columns now (tbl_seq t) (insert_for_issue n)]"
  have "constraints_hold ?t1 ?rs"
    using assms constraints_hold_schema[of ?t1 fresh_ledger ?rs]
    by (simp add: bounties_schema_def fresh_ledger_eq)
  then show ?thesis
    using assms(1) known_insert[OF assms(1)] serial_drawn[OF assms(1)]
    by (simp add: commit_def bounties_schema_def)
qed

lemma duplicated_rows:
  "tbl_rows duplicated_ledger =
     [make_row bounties_columns 0 1 (insert_for_issue 1),
      make_row bounties_columns 1 2 (insert_for_issue 2)]"
proof -
  let ?t1 = "snd (execute 0 (Insert (insert_for_issue 1)) fresh_ledger)"
  have s1: "tbl_rows ?t1 = [make_row bounties_columns 0 1 (insert_for_issue 1)]"
    "tbl_seq ?t1 = 2" "bounties_schema ?t1"
    using insert_step[OF fresh_ledger_ok(1), of 0 1] first_ok
    by (simp_all add: fresh_fields del: execute.simps)
  have "tbl_rows (snd (execute 1 (Insert (insert_for_issue 2)) ?t1))
          = [make_row bounties_columns 0 1 (insert_for_issue 1),
             make_row bounties_columns 1 2 (insert_for_issue 2)]"
    using insert_step[OF s1(3), of 1 2] second_ok by (simp add: s1 del: execute.simps)
  then show ?thesis by (simp add: duplicated_ledger_def del: execute.simps)
qed

lemma inserted_values:
  "make_row bounties_columns now seq (insert_for_issue n) ''status'' = StrV ''active''"
  "make_row bounties_columns now seq (insert_for_issue n) ''repository'' = StrV ''octo/repo''"
  "make_row bounties_columns now seq (insert_for_issue n) ''issue_id'' = IntV 7"
  "make_row bounties_columns now seq (insert_for_issue n) ''bounty_id'' = IntV n"
  "make_row bounties_columns now seq (insert_for_issue n) ''id'' = IntV seq"
  by (simp_all add: make_row_def insert_for_issue_def bounties_columns_def default_value_def)

theorem ledger_bounty_id_unique_witness:
  "length (tbl_rows duplicated_ledger) = 2
   \<and> (tbl_rows duplicated_ledger ! 0) ''bounty_id'' \<noteq> (tbl_rows duplicated_ledger ! 1) ''bounty_id''
   \<and> (tbl_rows duplicated_ledger ! 0) ''id'' \<noteq> (tbl_rows duplicated_ledger ! 1) ''id''"
  using ledger_bounty_id_unique
    [of 0 1 "[(0, Insert (insert_for_issue 1)), (1, Insert (insert_for_issue 2))]"]
    duplicated_rows
  by (simp add: duplicated_ledger_def)

text \<open>
  C2 as stated fails: nothing in the schema makes (repository, issue_id) unique among
  active bounties. After two inserts for issue 7 of \<open>octo/repo\<close> the ledger holds two rows,
  both \<open>active\<close>, with the same repository and the same issue.
\<close>

theorem ledger_same_issue_twice_counterexample:
  "length (tbl_rows duplicated_ledger) = 2
   \<and> is_active (tbl_rows duplicated_ledger ! 0) \<and> is_active (tbl_rows duplicated_ledger ! 1)
   \<and> (tbl_rows duplicated_ledger ! 0) ''repository'' = (tbl_rows duplicated_ledger ! 1) ''repository''
   \<and> (tbl_rows duplicated_ledger ! 0) ''issue_id'' = (tbl_rows duplicated_ledger ! 1) ''issue_id''"
  by (simp add: duplicated_rows inserted_values is_active_def)

section \<open>Properties of the payment service\<close>

subsection \<open>The address check\<close>

lemma regex_match_last:
  "regex_match [Repeat cls lo hi] s
     = (lo \<le> length s \<and> length s \<le> hi \<and> list_all (in_class cls) s)"
proof -
  have "regex_match [Repeat cls lo hi] s
          = (\<exists>k\<in>{lo..<Suc hi}. k \<le> length s \<and> list_all (in_class cls) (take k s)
                \<and> length s \<le> k)"
    by (simp only: regex_match.simps list_ex_iff set_upt drop_eq_Nil)
  also have "\<dots> = (\<exists>k\<in>{lo..<Suc hi}. k = length s \<and> list_all (in_class cls) s)"
    by (rule bex_cong) auto
  also have "\<dots> = (lo \<le> length s \<and> length s \<le> hi \<and> list_all (in_class cls) s)"
    by auto
  finally show ?thesis .
qed

lemma regex_match_first:
  "regex_match (Repeat cls (Suc 0) (Suc 0) # items) s
     = (case s of [] \<Rightarrow> False | c # cs \<Rightarrow> in_class cls c \<and> regex_match items cs)"
  by (cases s) simp_all

lemma base58_codes:
  "map of_char base58_alphabet =
     [49,50,51,52,53,54,55,56,57,65,66,67,68,69,70,71,72,74,75,76,77,78,80,81,82,83,84,85,86,
      87,88,89,90,97,98,99,100,101,102,103,104,105,106,107,109,110,111,112,113,114,115,116,
      117,118,119,120,121,122::nat]"
  by (simp add: base58_alphabet_def)

lemma digits_1_9: "(49 \<le> n \<and> n \<le> 57) = (n \<in> {49,50,51,52,53,54,55,56,57::nat})"
  by (simp only: insert_iff empty_iff) presburger

lemma letters_A_H: "(65 \<le> n \<and> n \<le> 72) = (n \<in> {65,66,67,68,69,70,71,72::nat})"
  by (simp only: insert_iff empty_iff) presburger

lemma letters_J_N: "(74 \<le> n \<and> n \<le> 78) = (n \<in> {74,75,76,77,78::nat})"
  by (simp only: insert_iff empty_iff) presburger

lemma letters_P_Z: "(80 \<le> n \<and> n \<le> 90) = (n \<in> {80,81,82,83,84,85,86,87,88,89,90::nat})"
  by (simp only: insert_iff empty_iff) presburger

lemma letters_a_k:
  "(97 \<le> n \<and> n \<le> 107) = (n \<in> {97,98,99,100,101,102,103,104,105,106,107::nat})"
  by (simp only: insert_iff empty_iff) presburger

lemma letters_m_z:
  "(109 \<le> n \<and> n \<le> 122)
     = (n \<in> {109,110,111,112,113,114,115,116,117,118,119,120,121,122::nat})"
  by (simp only: insert_iff empty_iff) presburger

text \<open>The class \<open>[a-km-zA-HJ-NP-Z1-9]\<close> is the Base58 alphabet.\<close>

lemma base58_class:
  "in_class [Range CHR ''a'' CHR ''k'', Range CHR ''m'' CHR ''z'', Range CHR ''A'' CHR ''H'',
             Range CHR ''J'' CHR ''N'', Range CHR ''P'' CHR ''Z'', Range CHR ''1'' CHR ''9''] c
     = (c \<in> set base58_alphabet)"
proof -
  define n where "n = (of_char c :: nat)"
  have "(c \<in> set base58_alphabet) = (n \<in> set (map of_char base58_alphabet))"
    unfolding n_def by (auto simp: image_iff)
  also have "\<dots> = ((49 \<le> n \<and> n \<le> 57) \<or> (65 \<le> n \<and> n \<le> 72) \<or> (74 \<le> n \<and> n \<le> 78)
                    \<or> (80 \<le> n \<and> n \<le> 90) \<or> (97 \<le> n \<and> n \<le> 107) \<or> (109 \<le> n \<and> n \<le> 122))"
    unfolding base58_codes digits_1_9 letters_A_H letters_J_N letters_P_Z letters_a_k
      letters_m_z
    by (simp only: set_simps insert_iff empty_iff) blast
  also have "\<dots> = in_class [Range CHR ''a'' CHR ''k'', Range CHR ''m'' CHR ''z'',
       Range CHR ''A'' CHR ''H'', Range CHR ''J'' CHR ''N'', Range CHR ''P'' CHR ''Z'',
       Range CHR ''1'' CHR ''9''] c"
    by (auto simp: in_class_def in_range_def n_def)
  finally show ?thesis by simp
qed

lemma base58_class_fun:
  "in_class [Range CHR ''a'' CHR ''k'', Range CHR ''m'' CHR ''z'', Range CHR ''A'' CHR ''H'',
             Range CHR ''J'' CHR ''N'', Range CHR ''P'' CHR ''Z'', Range CHR ''1'' CHR ''9'']
     = (\<lambda>x. x \<in> set base58_alphabet)"
  by (rule ext) (rule base58_class)

lemma first_class:
  "in_class [Single CHR ''1'', Single CHR ''3''] c = (c = CHR ''1'' \<or> c = CHR ''3'')"
  by (simp add: in_class_def in_range_def)

text \<open>
  C8. \<open>validateAddress\<close> returns a boolean for every input string and never throws: the
  result is \<open>true\<close> exactly when the string has the shape of a recipient address, a \<open>1\<close> or
  a \<open>3\<close> followed by 25 to 34 Base58 characters, and \<open>false\<close> otherwise.
\<close>

theorem validateAddress_shape: "validateAddress address = Inr (address_shape address)"
  by (cases address)
    (simp_all add: validateAddress_def regex_test_def addressRegex_def address_shape_def
      regex_match_first regex_match_last base58_class_fun first_class del: regex_match.simps)

theorem validateAddress_shape_witness:
  "validateAddress ''1A1zP1eP5QGefi2DMPTfTL5SLmv7DivfNa'' = Inr True
   \<and> validateAddress ''1A1zP1eP5QGefi2DMPTfTL5SLmv7DivfN0'' = Inr False
   \<and> validateAddress ''3short'' = Inr False"
  using validateAddress_shape [of "''1A1zP1eP5QGefi2DMPTfTL5SLmv7DivfNa''"]
    validateAddress_shape [of "''1A1zP1eP5QGefi2DMPTfTL5SLmv7DivfN0''"]
    validateAddress_shape [of "''3short''"]
  by (simp add: address_shape_def base58_alphabet_def)


subsection \<open>The faucet, the fee and the flag\<close>

lemma ready_service_eq:
  "ready_service = \<lparr>Mnee = Some (\<lambda>options. Inr demo_client), sdkLoaded = True,
                     mnee = Some demo_client, mneeConfig = Some demo_config,
                     initialized = True\<rparr>"
  by (simp add: ready_service_def run_def initialize_def loadMneeSdk_def new_service_def
      demo_world_def demo_client_def truthy_defs)

text \<open>
  C7. \<open>requestFromFaucet\<close> succeeds only in the sandbox: whenever \<open>MNEE_ENVIRONMENT\<close> is
  not \<open>sandbox\<close> (unset included) it throws without a call to the rail's faucet, and
  whenever it returns a result the environment is \<open>sandbox\<close>.
\<close>

theorem faucet_sandbox_only:
  "(process_env w ''MNEE_ENVIRONMENT'' \<noteq> Some ''sandbox'' \<longrightarrow>
      requestFromFaucet w s
        = ([], Inl (Error ''Faucet is only available in sandbox environment'')))
   \<and> (\<forall>calls r. requestFromFaucet w s = (calls, Inr r) \<longrightarrow>
         process_env w ''MNEE_ENVIRONMENT'' = Some ''sandbox'')"
  by (auto simp: requestFromFaucet_def Let_def split: if_splits option.splits sum.splits)

theorem faucet_sandbox_only_witness:
  "requestFromFaucet (demo_world (Some ''production'')) ready_service
     = ([], Inl (Error ''Faucet is only available in sandbox environment''))
   \<and> requestFromFaucet (demo_world None) ready_service
     = ([], Inl (Error ''Faucet is only available in sandbox environment''))
   \<and> requestFromFaucet (demo_world (Some ''sandbox'')) ready_service
     = ([FaucetCall ''1BotAddress''], Inr ''drip'')"
  using faucet_sandbox_only [of "demo_world (Some ''production'')" ready_service]
    faucet_sandbox_only [of "demo_world None" ready_service]
  by (simp add: requestFromFaucet_def demo_world_def ready_service_eq demo_client_def
      truthy_defs)

text \<open>Loading the SDK writes the module's variables only.\<close>

lemma loadMneeSdk_fields:
  "mnee (snd (loadMneeSdk w s)) = mnee s" "mneeConfig (snd (loadMneeSdk w s)) = mneeConfig s"
  "initialized (snd (loadMneeSdk w s)) = initialized s"
  by (simp_all add: loadMneeSdk_def split: sum.splits)

lemma initialize_has_client:
  "has_client s \<Longrightarrow> has_client (snd (snd (initialize w s)))"
  using loadMneeSdk_fields[of w s]
  by (cases "loadMneeSdk w s")
     (auto simp: initialize_def has_client_def Let_def split: option.splits sum.splits)

lemma step_has_client: "has_client s \<Longrightarrow> has_client (step x s)"
proof -
  obtain w opn where "x = (w, opn)" by (cases x)
  then show "has_client s \<Longrightarrow> has_client (step x s)"
    by (cases opn) (simp_all add: initialize_has_client)
qed

lemma run_has_client: "has_client s \<Longrightarrow> has_client (run steps s)"
  unfolding run_def by (induction steps arbitrary: s) (simp_all add: step_has_client)

lemma new_service_has_client: "has_client new_service"
  by (simp add: has_client_def new_service_def)

text \<open>\<open>find\<close> returns the first element that satisfies the test.\<close>

lemma find_first:
  "i < length xs \<Longrightarrow> P (xs ! i) \<Longrightarrow> (\<forall>j<i. \<not> P (xs ! j)) \<Longrightarrow> find P xs = Some (xs ! i)"
proof (induction xs arbitrary: i)
  case Nil
  then show ?case by simp
next
  case (Cons x xs)
  show ?case
  proof (cases i)
    case 0
    then show ?thesis using Cons.prems by simp
  next
    case (Suc i')
    have "\<not> P x" using Cons.prems(3) Suc by auto
    moreover have "\<forall>j<i'. \<not> P (xs ! j)"
    proof (intro allI impI)
      fix j assume "j < i'"
      then have "Suc j < i" using Suc by simp
      then have "\<not> P ((x # xs) ! Suc j)" using Cons.prems(3) by blast
      then show "\<not> P (xs ! j)" by simp
    qed
    then have "find P xs = Some (xs ! i')"
      using Cons.IH[of i'] Cons.prems(1,2) Suc by simp
    ultimately show ?thesis using Suc by simp
  qed
qed

text \<open>
  C9. In every state the service can reach, \<open>calculateFee\<close> throws while no
  configuration is loaded; with a configuration loaded it returns the fee, converted
  back from atomic units, of the first configured tier whose range from \<open>min\<close> to \<open>max\<close>
  contains the converted amount, and throws when no tier contains it.
\<close>

theorem calculateFee_first_tier:
  assumes "s = run steps new_service"
  shows "(mneeConfig s = None \<longrightarrow>
            calculateFee s amount = Inl (Error ''MNEE configuration not loaded''))
         \<and> (\<forall>cfg. mneeConfig s = Some cfg \<longrightarrow>
              (\<exists>client. mnee s = Some client
                 \<and> (\<forall>i<length (fees cfg).
                       in_tier (toAtomicAmount client amount) (fees cfg ! i)
                       \<and> (\<forall>j<i. \<not> in_tier (toAtomicAmount client amount) (fees cfg ! j))
                       \<longrightarrow> calculateFee s amount
                             = Inr (fromAtomicAmount client (tier_fee (fees cfg ! i))))
                 \<and> ((\<forall>t\<in>set (fees cfg). \<not> in_tier (toAtomicAmount client amount) t)
                       \<longrightarrow> calculateFee s amount = Inl (NoFeeTierFound amount))))"
proof (intro conjI impI allI)
  assume "mneeConfig s = None"
  then show "calculateFee s amount = Inl (Error ''MNEE configuration not loaded'')"
    by (simp add: calculateFee_def)
next
  fix cfg
  assume cfg: "mneeConfig s = Some cfg"
  have "has_client s" using assms run_has_client[OF new_service_has_client] by simp
  then obtain client where client: "mnee s = Some client"
    using cfg by (auto simp: has_client_def)
  let ?a = "toAtomicAmount client amount"
  have first: "calculateFee s amount = Inr (fromAtomicAmount client (tier_fee (fees cfg ! i)))"
    if "i < length (fees cfg)" "in_tier ?a (fees cfg ! i)"
      "\<forall>j<i. \<not> in_tier ?a (fees cfg ! j)" for i
    using find_first[of i "fees cfg" "in_tier ?a"] that cfg client
    by (simp add: calculateFee_def)
  have none: "calculateFee s amount = Inl (NoFeeTierFound amount)"
    if "\<forall>t\<in>set (fees cfg). \<not> in_tier ?a t"
  proof -
    have "find (in_tier ?a) (fees cfg) = None" using that by (simp add: find_None_iff)
    then show ?thesis using cfg client by (simp add: calculateFee_def)
  qed
  show "\<exists>client. mnee s = Some client
          \<and> (\<forall>i<length (fees cfg).
                in_tier (toAtomicAmount client amount) (fees cfg ! i)
                \<and> (\<forall>j<i. \<not> in_tier (toAtomicAmount client amount) (fees cfg ! j))
                \<longrightarrow> calculateFee s amount
                      = Inr (fromAtomicAmount client (tier_fee (fees cfg ! i))))
          \<and> ((\<forall>t\<in>set (fees cfg). \<not> in_tier (toAtomicAmount client amount) t)
                \<longrightarrow> calculateFee s amount = Inl (NoFeeTierFound amount))"
    using client first none by auto
qed


theorem calculateFee_first_tier_witness:
  "calculateFee ready_service 7 = Inr (1 / 1000)
   \<and> calculateFee ready_service 20 = Inr (1 / 100)
   \<and> calculateFee ready_service 5000 = Inl (NoFeeTierFound 5000)
   \<and> calculateFee new_service 7 = Inl (Error ''MNEE configuration not loaded'')"
proof -
  have ready: "ready_service = run [(demo_world (Some ''sandbox''), Initialize)] new_service"
    by (simp add: ready_service_def)
  have new: "new_service = run [] new_service" by (simp add: run_def)
  have cfg: "mneeConfig ready_service = Some demo_config" "mnee ready_service = Some demo_client"
    by (simp_all add: ready_service_eq)
  have tiers: "fees demo_config = [\<lparr>tier_min = 0, tier_max = 1000000, tier_fee = 100\<rparr>,
      \<lparr>tier_min = 500000, tier_max = 100000000, tier_fee = 1000\<rparr>]"
    by (simp add: demo_config_def)
  have conv: "toAtomicAmount demo_client = (\<lambda>a. a * 100000)"
    "fromAtomicAmount demo_client = (\<lambda>a. a / 100000)"
    by (simp_all add: demo_client_def)
  have "calculateFee ready_service 7 = Inr (1 / 1000)"
    using calculateFee_first_tier [OF ready, of 7] cfg
    by (auto simp: tiers conv in_tier_def dest!: spec[of _ 0])
  moreover have "calculateFee ready_service 20 = Inr (1 / 100)"
    using calculateFee_first_tier [OF ready, of 20] cfg
    by (auto simp: tiers conv in_tier_def less_Suc_eq dest!: spec[of _ 1])
  moreover have "calculateFee ready_service 5000 = Inl (NoFeeTierFound 5000)"
    using calculateFee_first_tier [OF ready, of 5000] cfg
    by (auto simp: tiers conv in_tier_def)
  moreover have "calculateFee new_service 7 = Inl (Error ''MNEE configuration not loaded'')"
    using calculateFee_first_tier [OF new, of 7] by (simp add: new_service_def)
  ultimately show ?thesis by simp
qed

text \<open>\<open>initialize\<close> resolves exactly when its four steps succeed, and only then does it set
  the flag.\<close>

lemma initialize_result:
  "(fst (snd (initialize w s)) = Inr ()) = initialize_succeeds w s"
  by (cases "loadMneeSdk w s")
     (auto simp: initialize_def initialize_succeeds_def Let_def split: option.splits sum.splits)

lemma initialize_sets_flag:
  "initialized (snd (snd (initialize w s))) = (initialized s \<or> initialize_succeeds w s)"
  using loadMneeSdk_fields(3)[of w s]
  by (cases "loadMneeSdk w s")
     (auto simp: initialize_def initialize_succeeds_def Let_def split: option.splits sum.splits)

lemma run_snoc: "run (steps @ [x]) s = step x (run steps s)"
  by (simp add: run_def)

lemma flag_needs_initialize:
  "initialized (run steps s0) \<Longrightarrow> \<not> initialized s0 \<Longrightarrow>
   \<exists>pre w post. steps = pre @ (w, Initialize) # post \<and> initialize_succeeds w (run pre s0)"
proof (induction steps rule: rev_induct)
  case Nil
  then show ?case by (simp add: run_def)
next
  case (snoc x xs)
  show ?case
  proof (cases "initialized (run xs s0)")
    case True
    then obtain pre w post where "xs = pre @ (w, Initialize) # post"
      "initialize_succeeds w (run pre s0)"
      using snoc.IH snoc.prems(2) by blast
    then have "xs @ [x] = pre @ (w, Initialize) # (post @ [x])
               \<and> initialize_succeeds w (run pre s0)" by simp
    then show ?thesis by blast
  next
    case False
    obtain w opn where x: "x = (w, opn)" by (cases x)
    have changed: "initialized (step (w, opn) (run xs s0))"
      using snoc.prems(1) by (simp add: run_snoc x)
    have "opn = Initialize" using changed False by (cases opn) simp_all
    moreover from this have "initialize_succeeds w (run xs s0)"
      using changed False by (simp add: initialize_sets_flag)
    ultimately have "xs @ [x] = xs @ (w, Initialize) # [] \<and> initialize_succeeds w (run xs s0)"
      using x by simp
    then show ?thesis by blast
  qed
qed

text \<open>
  C10. Whenever the service's \<open>initialized\<close> flag is true, an earlier call of \<open>initialize\<close>
  resolved: the SDK was loaded, the API key was set, the client was built and its
  configuration was fetched. And every call of \<open>sendPayment\<close> or \<open>getBalance\<close> while the
  flag is false throws the error "MNEE payment service not initialized" without a call
  to the payment rail.
\<close>

theorem initialized_only_after_initialize:
  "(initialized (run steps new_service) \<longrightarrow>
      (\<exists>pre w post. steps = pre @ (w, Initialize) # post
          \<and> initialize_succeeds w (run pre new_service)
          \<and> fst (snd (initialize w (run pre new_service))) = Inr ()))
   \<and> (\<not> initialized s \<longrightarrow>
        sendPayment w' s recipientAddress amount bountyId
          = ([], Inl (Error ''MNEE payment service not initialized''))
        \<and> getBalance w' s = ([], Inl (Error ''MNEE payment service not initialized'')))"
proof (intro conjI impI)
  assume "initialized (run steps new_service)"
  then obtain pre w post where "steps = pre @ (w, Initialize) # post"
    "initialize_succeeds w (run pre new_service)"
    using flag_needs_initialize[of steps new_service] by (auto simp: new_service_def)
  then show "\<exists>pre w post. steps = pre @ (w, Initialize) # post
          \<and> initialize_succeeds w (run pre new_service)
          \<and> fst (snd (initialize w (run pre new_service))) = Inr ()"
    using initialize_result by blast
next
  assume "\<not> initialized s"
  then show "sendPayment w' s recipientAddress amount bountyId
          = ([], Inl (Error ''MNEE payment service not initialized''))"
    by (simp add: sendPayment_def)
next
  assume "\<not> initialized s"
  then show "getBalance w' s = ([], Inl (Error ''MNEE payment service not initialized''))"
    by (simp add: getBalance_def)
qed

theorem initialized_only_after_initialize_witness:
  "initialized ready_service
   \<and> (\<exists>pre w post. [(demo_world (Some ''sandbox''), Initialize)] = pre @ (w, Initialize) # post
          \<and> initialize_succeeds w (run pre new_service))
   \<and> sendPayment (demo_world (Some ''sandbox'')) new_service ''1BobAddress'' 10 ''1''
       = ([], Inl (Error ''MNEE payment service not initialized''))
   \<and> getBalance (demo_world (Some ''sandbox'')) new_service
       = ([], Inl (Error ''MNEE payment service not initialized''))
   \<and> sendPayment (demo_world (Some ''sandbox'')) ready_service ''1BobAddress'' 10 ''1''
       = ([TransferCall [(''1BobAddress'', 10)] ''wif''],
          Inr \<lparr>receipt_success = True, receipt_transactionId = ''tx1'', receipt_amount = 10,
               receipt_recipient = ''1BobAddress'', receipt_bountyId = ''1''\<rparr>)"
proof -
  have flag: "initialized ready_service" by (simp add: ready_service_eq)
  have off: "\<not> initialized new_service" by (simp add: new_service_def)
  have paid: "sendPayment (demo_world (Some ''sandbox'')) ready_service ''1BobAddress'' 10 ''1''
       = ([TransferCall [(''1BobAddress'', 10)] ''wif''],
          Inr \<lparr>receipt_success = True, receipt_transactionId = ''tx1'', receipt_amount = 10,
               receipt_recipient = ''1BobAddress'', receipt_bountyId = ''1''\<rparr>)"
    by (simp add: sendPayment_def ready_service_eq demo_world_def demo_client_def truthy_defs)
  show ?thesis
    using initialized_only_after_initialize
      [of "[(demo_world (Some ''sandbox''), Initialize)]" new_service
          "demo_world (Some ''sandbox'')" "''1BobAddress''" 10 "''1''"]
      flag off paid
    unfolding ready_service_def[symmetric] by blast
qed

end
